theory Spec2Isabelle
  imports Main
begin

section \<open>Type model\<close>

text \<open>
  Modelled from the spec: the scalar kinds and block types of module \<open>core\<close>
  (\<open>core.dtype\<close>, \<open>core.block_type\<close>, \<open>core.pointer_type\<close>), which
  \<open>semantic.py\<close> imports and which is not among the sources. The spec gives the closed
  variant \<open>Bool\<close>, \<open>Int{width \<in> {8,16,32,64}, signed}\<close>, \<open>Float16\<close>,
  \<open>BFloat16\<close>, \<open>Float32\<close>, \<open>Float64\<close>, \<open>Pointer{pointee, address_space}\<close>.
\<close>

datatype SIGNEDNESS = SIGNED | UNSIGNED

datatype int_width = W8 | W16 | W32 | W64

datatype dtype =
    Bool
  | IntTy int_width SIGNEDNESS
  | Float16
  | BFloat16
  | Float32
  | Float64
  | Pointer dtype int

abbreviation int1 :: dtype where "int1 \<equiv> Bool"
abbreviation int8 :: dtype where "int8 \<equiv> IntTy W8 SIGNED"
abbreviation int16 :: dtype where "int16 \<equiv> IntTy W16 SIGNED"
abbreviation int32 :: dtype where "int32 \<equiv> IntTy W32 SIGNED"
abbreviation int64 :: dtype where "int64 \<equiv> IntTy W64 SIGNED"
abbreviation uint8 :: dtype where "uint8 \<equiv> IntTy W8 UNSIGNED"
abbreviation uint16 :: dtype where "uint16 \<equiv> IntTy W16 UNSIGNED"
abbreviation uint32 :: dtype where "uint32 \<equiv> IntTy W32 UNSIGNED"
abbreviation uint64 :: dtype where "uint64 \<equiv> IntTy W64 UNSIGNED"
abbreviation float16 :: dtype where "float16 \<equiv> Float16"
abbreviation bfloat16 :: dtype where "bfloat16 \<equiv> BFloat16"
abbreviation float32 :: dtype where "float32 \<equiv> Float32"
abbreviation float64 :: dtype where "float64 \<equiv> Float64"
abbreviation pointer_type :: "dtype \<Rightarrow> int \<Rightarrow> dtype" where
  "pointer_type \<equiv> Pointer"

fun width_bits :: "int_width \<Rightarrow> nat" where
  "width_bits W8 = 8"
| "width_bits W16 = 16"
| "width_bits W32 = 32"
| "width_bits W64 = 64"

fun is_fp64 :: "dtype \<Rightarrow> bool" where
  "is_fp64 Float64 = True" | "is_fp64 _ = False"

fun is_fp32 :: "dtype \<Rightarrow> bool" where
  "is_fp32 Float32 = True" | "is_fp32 _ = False"

fun is_fp16 :: "dtype \<Rightarrow> bool" where
  "is_fp16 Float16 = True" | "is_fp16 _ = False"

fun is_bf16 :: "dtype \<Rightarrow> bool" where
  "is_bf16 BFloat16 = True" | "is_bf16 _ = False"

fun is_bool :: "dtype \<Rightarrow> bool" where
  "is_bool Bool = True" | "is_bool _ = False"

fun is_ptr :: "dtype \<Rightarrow> bool" where
  "is_ptr (Pointer _ _) = True" | "is_ptr _ = False"

text \<open>
  The boolean kind counts as an integer of bit-width 1: the source's cast rules ask
  \<open>is_bool\<close> of kinds that have passed \<open>is_int\<close>, and the spec speaks of "the 1-bit
  boolean representation" of a signed source in the integer-to-integer rule.
\<close>

fun is_int :: "dtype \<Rightarrow> bool" where
  "is_int Bool = True" | "is_int (IntTy _ _) = True" | "is_int _ = False"

fun is_floating :: "dtype \<Rightarrow> bool" where
  "is_floating Float16 = True"
| "is_floating BFloat16 = True"
| "is_floating Float32 = True"
| "is_floating Float64 = True"
| "is_floating _ = False"

text \<open>
  The integer accessors exist on integer kinds only; on any other kind they have no value.
\<close>

fun int_bitwidth :: "dtype \<Rightarrow> nat option" where
  "int_bitwidth Bool = Some 1"
| "int_bitwidth (IntTy w _) = Some (width_bits w)"
| "int_bitwidth _ = None"

fun int_signedness :: "dtype \<Rightarrow> SIGNEDNESS option" where
  "int_signedness Bool = Some SIGNED"
| "int_signedness (IntTy _ s) = Some s"
| "int_signedness _ = None"

definition is_int_signed :: "dtype \<Rightarrow> bool" where
  "is_int_signed t = (int_signedness t = Some SIGNED)"

section \<open>Errors\<close>

text \<open>
  Every \<open>raise\<close> and every failing \<open>assert\<close> of the source is a value. The messages
  of the source are built from \<open>repr()\<close> of the operand types; where the operands
  matter to a property the model keeps the operands themselves.
\<close>

datatype message =
    DifferentSignedness dtype dtype
  | ModDifferentSignedness dtype dtype
  | SameRank
  | IncompatibleDimensions nat int int
  | CannotBroadcast
  | LoadPointerArgument
  | CacheModifierNotSupported string
  | EvictionPolicyNotSupported string
  | OtherWithoutMask
  | XorSumOnlyIntegers
  | StorePointerArgument
  | CannotBitcast

datatype error =
    ValueError message
  | IncompatibleTypeErrorimpl dtype dtype
  | AssertionError
  | AttributeError
  | NameError string

section \<open>Block types, values and the IR builder\<close>

text \<open>
  Modelled from the spec: a block type is an element kind with a shape, and a scalar type
  is a block type of rank 0; \<open>is_block\<close> is "rank > 0". Two types are equal iff the
  element kind and the whole shape are.
\<close>

record ty =
  scalar :: dtype
  get_block_shapes :: "int list"

definition block_type :: "dtype \<Rightarrow> int list \<Rightarrow> ty" where
  "block_type element_ty shape = \<lparr>scalar = element_ty, get_block_shapes = shape\<rparr>"

definition scalar_type :: "dtype \<Rightarrow> ty" where
  "scalar_type element_ty = \<lparr>scalar = element_ty, get_block_shapes = []\<rparr>"

definition is_block :: "ty \<Rightarrow> bool" where
  "is_block t = (get_block_shapes t \<noteq> [])"

text \<open>
  The IR builder is an external collaborator (\<open>triton._C.libtriton.triton.ir\<close>). The
  model keeps what the lowering layer decides: which instruction is emitted, on which
  operands, in which order. A builder is the list of the instructions emitted so far; an
  IR value is a value handed in by the caller, the result of an emitted instruction, or
  a constant.
\<close>

datatype ir_value =
    Param nat
  | Result nat
  | get_int64 int
  | get_int1 bool
  | undef dtype
  | constant_float dtype int

datatype CACHE_MODIFIER = NONE | CA | CG

datatype EVICTION_POLICY = NORMAL | EVICT_LAST | EVICT_FIRST

datatype ATOMIC_OP = ATOMIC_OP_MAX | ATOMIC_OP_UMAX | ATOMIC_OP_UMIN

datatype REDUCE_OP =
    REDUCE_OP_FMIN | REDUCE_OP_MIN | REDUCE_OP_FMAX | REDUCE_OP_MAX
  | REDUCE_OP_FADD | REDUCE_OP_ADD | REDUCE_OP_XOR

datatype instr =
    create_splat ir_value "int list"
  | create_broadcast ir_value "int list"
  | create_fp_trunc ir_value ty
  | create_fp_ext ir_value ty
  | create_int_cast ir_value ty bool
  | create_fp_to_ui ir_value ty
  | create_fp_to_si ir_value ty
  | create_ui_to_fp ir_value ty
  | create_si_to_fp ir_value ty
  | create_cast_PtrToInt ir_value ty
  | create_int_to_ptr ir_value ty
  | create_bitcast ir_value ty
  | create_icmpNE ir_value ir_value
  | create_fcmpUNE ir_value ir_value
  | create_gep ir_value "ir_value list"
  | create_fadd ir_value ir_value
  | create_add ir_value ir_value
  | create_fdiv ir_value ir_value
  | create_frem ir_value ir_value
  | create_srem ir_value ir_value
  | create_urem ir_value ir_value
  | create_load ir_value CACHE_MODIFIER EVICTION_POLICY bool
  | create_masked_load ir_value ir_value ir_value CACHE_MODIFIER EVICTION_POLICY bool
  | create_reduce ir_value REDUCE_OP int
  | create_fcmpOGE ir_value ir_value
  | create_icmpSGE ir_value ir_value
  | create_icmpUGE ir_value ir_value
  | create_fcmpOLT ir_value ir_value
  | create_icmpSLT ir_value ir_value
  | create_icmpULT ir_value ir_value
  | create_and ir_value ir_value
  | create_atomic_rmw ATOMIC_OP ir_value ir_value ir_value
  | create_select ir_value ir_value ir_value

type_synonym builder = "instr list"

definition emit :: "instr \<Rightarrow> builder \<Rightarrow> ir_value \<times> builder" where
  "emit i b = (Result (length b), b @ [i])"

text \<open>A value (\<open>core.block\<close>): an IR handle paired with its static type.\<close>

record block =
  handle :: ir_value
  type :: ty

definition block :: "ir_value \<Rightarrow> ty \<Rightarrow> block" where
  "block h t = \<lparr>handle = h, type = t\<rparr>"

section \<open>Shape manipulation\<close>

text \<open>
  \<open>broadcast_impl_shape\<close> returns its input, a block, when nothing is to be done, and
  otherwise the bare IR value the builder gives back.
\<close>

datatype block_or_ir = Block block | Ir ir_value

definition broadcast_impl_shape ::
    "block \<Rightarrow> int list \<Rightarrow> builder \<Rightarrow> error + (block_or_ir \<times> builder)" where
  "broadcast_impl_shape input shape b =
    (if \<not> is_block (type input) then
       (let (v, b1) = emit (create_splat (handle input) shape) b in Inr (Ir v, b1))
     else
       (let src_shape = get_block_shapes (type input) in
        if length src_shape \<noteq> length shape then Inl (ValueError CannotBroadcast)
        else if shape = src_shape then Inr (Block input, b)
        else (let (v, b1) = emit (create_broadcast (handle input) shape) b
              in Inr (Ir v, b1))))"

text \<open>
  The loop of \<open>broadcast_impl_value\<close> over the axes \<open>i\<close> of two shapes of equal rank,
  the remaining sizes of each side at hand, \<open>ret_shape\<close> accumulated in order.
\<close>

fun ret_shape_loop :: "nat \<Rightarrow> int list \<Rightarrow> int list \<Rightarrow> int list \<Rightarrow> error + int list" where
  "ret_shape_loop i (left # ls) (right # rs) ret_shape =
    (if left = 1 then ret_shape_loop (Suc i) ls rs (ret_shape @ [right])
     else if right = 1 then ret_shape_loop (Suc i) ls rs (ret_shape @ [left])
     else if left = right then ret_shape_loop (Suc i) ls rs (ret_shape @ [left])
     else Inl (ValueError (IncompatibleDimensions i left right)))"
| "ret_shape_loop i _ _ ret_shape = Inr ret_shape"

definition broadcast_impl_value ::
    "block \<Rightarrow> block \<Rightarrow> builder \<Rightarrow> error + ((block \<times> block) \<times> builder)" where
  "broadcast_impl_value lhs rhs b =
    (let lhs_ty = type lhs; rhs_ty = type rhs in
     if is_block lhs_ty \<and> \<not> is_block rhs_ty then
       (let ret_ty = lhs_ty;
            (v, b1) = emit (create_splat (handle rhs) (get_block_shapes lhs_ty)) b
        in Inr ((lhs, block v ret_ty), b1))
     else if \<not> is_block lhs_ty \<and> is_block rhs_ty then
       (let ret_ty = rhs_ty;
            (v, b1) = emit (create_splat (handle lhs) (get_block_shapes rhs_ty)) b
        in Inr ((block v ret_ty, rhs), b1))
     else if is_block lhs_ty \<and> is_block rhs_ty then
       (let lhs_shape = get_block_shapes lhs_ty; rhs_shape = get_block_shapes rhs_ty in
        if length lhs_shape \<noteq> length rhs_shape then Inl (ValueError SameRank)
        else
          (case ret_shape_loop 0 lhs_shape rhs_shape [] of
             Inl e \<Rightarrow> Inl e
           | Inr ret_shape \<Rightarrow>
               (let (lhs1, b1) =
                      (if lhs_shape \<noteq> ret_shape then
                         (let ret_ty = block_type (scalar lhs_ty) ret_shape;
                              (v, b') = emit (create_broadcast (handle lhs) ret_shape) b
                          in (block v ret_ty, b'))
                       else (lhs, b));
                    (rhs1, b2) =
                      (if rhs_shape \<noteq> ret_shape then
                         (let ret_ty = block_type (scalar rhs_ty) ret_shape;
                              (v, b') = emit (create_broadcast (handle rhs) ret_shape) b1
                          in (block v ret_ty, b'))
                       else (rhs, b1))
                in Inr ((lhs1, rhs1), b2))))
     else Inr ((lhs, rhs), b))"

section \<open>Implicit casting utilities\<close>

definition integer_promote_impl :: "dtype \<Rightarrow> dtype \<Rightarrow> error + dtype" where
  "integer_promote_impl a_ty b_ty =
    (case (int_bitwidth a_ty, int_bitwidth b_ty, int_signedness a_ty, int_signedness b_ty) of
       (Some a_rank, Some b_rank, Some a_sn, Some b_sn) \<Rightarrow>
         if a_sn = b_sn then Inr (if a_rank > b_rank then a_ty else b_ty)
         else if a_sn = UNSIGNED then Inr (if a_rank \<ge> b_rank then a_ty else b_ty)
         else if b_sn = UNSIGNED then Inr (if b_rank \<ge> a_rank then b_ty else a_ty)
         else Inl AssertionError
     | _ \<Rightarrow> Inl AttributeError)"

definition computation_type_impl :: "dtype \<Rightarrow> dtype \<Rightarrow> bool \<Rightarrow> error + dtype" where
  "computation_type_impl a_ty b_ty div_or_mod =
    (if is_fp64 a_ty \<or> is_fp64 b_ty then Inr float64
     else if is_fp32 a_ty \<or> is_fp32 b_ty then Inr float32
     else if is_fp16 a_ty \<or> is_fp16 b_ty then
       (if div_or_mod then Inr float32 else Inr float16)
     else if \<not> is_int a_ty \<or> \<not> is_int b_ty then Inl AssertionError
     else if div_or_mod \<and> int_signedness a_ty \<noteq> int_signedness b_ty then
       Inl (ValueError (DifferentSignedness a_ty b_ty))
     else integer_promote_impl a_ty b_ty)"

text \<open>
  The same error with the two operand kinds it names exchanged: the source builds its
  message from the first operand, then the second.
\<close>

fun mirrored :: "error \<Rightarrow> error" where
  "mirrored (ValueError (DifferentSignedness a b)) = ValueError (DifferentSignedness b a)"
| "mirrored (ValueError (ModDifferentSignedness a b)) = ValueError (ModDifferentSignedness b a)"
| "mirrored (IncompatibleTypeErrorimpl a b) = IncompatibleTypeErrorimpl b a"
| "mirrored e = e"

section \<open>Shape resolution as the spec words it\<close>

text \<open>
  The spec's \<open>shape_compatible\<close> over two shapes of equal rank: per axis, if either side
  is 1 take the other; if both are equal take that value; anything else is an error.
\<close>

definition axis_compatible :: "int \<Rightarrow> int \<Rightarrow> bool" where
  "axis_compatible left right = (left = 1 \<or> right = 1 \<or> left = right)"

definition axis_result :: "int \<Rightarrow> int \<Rightarrow> int" where
  "axis_result left right = (if left = 1 then right else if right = 1 then left else left)"

definition shape_compatible :: "int list \<Rightarrow> int list \<Rightarrow> int list" where
  "shape_compatible shape_a shape_b = map2 axis_result shape_a shape_b"

section \<open>Running a fallible step after another\<close>

definition and_then :: "error + 'a \<Rightarrow> ('a \<Rightarrow> error + 'b) \<Rightarrow> error + 'b" where
  "and_then r f = (case r of Inl e \<Rightarrow> Inl e | Inr x \<Rightarrow> f x)"

text \<open>Emit one instruction and wrap its result as a value of the given type.\<close>

definition emit_block :: "instr \<Rightarrow> ty \<Rightarrow> builder \<Rightarrow> error + (block \<times> builder)" where
  "emit_block i t b = (let (v, b1) = emit i b in Inr (block v t, b1))"

section \<open>Cast\<close>

text \<open>
  Modelled from the spec: \<open>get_fp_mantissa_width\<close> of module \<open>core\<close> ranks float
  precision, in the spec's order fp16 < bf16 < fp32 < fp64. Only the order is used. The
  source reads it on floating kinds only (each read follows \<open>is_floating\<close> tests).
\<close>

fun get_fp_mantissa_width :: "dtype \<Rightarrow> nat" where
  "get_fp_mantissa_width Float16 = 1"
| "get_fp_mantissa_width BFloat16 = 2"
| "get_fp_mantissa_width Float32 = 3"
| "get_fp_mantissa_width Float64 = 4"
| "get_fp_mantissa_width _ = 0"

text \<open>
  The destination type of \<open>cast\<close>: the destination kind, given the shape of the source
  when the source is a block.
\<close>

definition cast_dst_ty :: "ty \<Rightarrow> dtype \<Rightarrow> ty" where
  "cast_dst_ty src_ty dst =
    (if is_block src_ty then block_type dst (get_block_shapes src_ty) else scalar_type dst)"

text \<open>
  The flag \<open>sign_extend\<close> of the rule "Int cast". The source computes
  \<open>src_sca_ty.is_int_signed() and src_sca_ty != builder.get_int1_ty()\<close>: the second
  operand compares a kind of module \<open>core\<close> with a type of the IR, two different
  things that are never equal, so the flag is \<open>is_int_signed\<close> alone (true for an
  \<open>int1\<close> source as well).
\<close>

definition sign_extend :: "dtype \<Rightarrow> bool" where
  "sign_extend src_sca_ty = is_int_signed src_sca_ty"

text \<open>The conversion of the rule "int => float" of \<open>cast\<close>.\<close>

definition int_to_fp :: "dtype \<Rightarrow> ir_value \<Rightarrow> ty \<Rightarrow> instr" where
  "int_to_fp src_sca_ty h dst_ty =
    (if is_bool src_sca_ty \<or> \<not> is_int_signed src_sca_ty then create_ui_to_fp h dst_ty
     else create_si_to_fp h dst_ty)"

text \<open>
  \<open>cast\<close> calls itself twice on a pointer input with destination \<open>core.int64\<close>, and
  then \<open>not_equal\<close> on two \<open>int64\<close> operands, which itself runs \<open>cast\<close>. Both
  calls are written out here so that \<open>cast\<close> is not recursive:
  \<open>cast_ptr_to_int64\<close> is the rule "ptr => int" at bit-width 64, and
  \<open>not_equal_int64\<close> is \<open>not_equal\<close> when both operands have kind \<open>int64\<close>
  (the computation type is \<open>int64\<close>, so both casts return their input).
  Lemmas \<open>cast_ptr_int64\<close> and \<open>not_equal_on_int64\<close> below show that they agree
  with \<open>cast\<close> and \<open>not_equal\<close>.
\<close>

definition cast_ptr_to_int64 :: "block \<Rightarrow> builder \<Rightarrow> error + (block \<times> builder)" where
  "cast_ptr_to_int64 input b =
    (let dst_ty = cast_dst_ty (type input) int64
     in emit_block (create_cast_PtrToInt (handle input) dst_ty) dst_ty b)"

definition not_equal_int64 :: "block \<Rightarrow> block \<Rightarrow> builder \<Rightarrow> error + (block \<times> builder)" where
  "not_equal_int64 input other b =
    and_then (broadcast_impl_value input other b) (\<lambda>((input, other), b1).
      emit_block (create_icmpNE (handle input) (handle other)) (type input) b1)"

definition cast :: "block \<Rightarrow> dtype \<Rightarrow> builder \<Rightarrow> error + (block \<times> builder)" where
  "cast input dst b =
    (let src_ty = type input;
         dst_ty = cast_dst_ty src_ty dst
     in
     if src_ty = dst_ty then Inr (input, b)
     else
      (let src_sca_ty = scalar src_ty;
           dst_sca_ty = scalar dst_ty
       in
       \<comment> \<open>bf16 <=> (not fp32): the source calls the undefined name \<open>case\<close>\<close>
       if (is_bf16 src_sca_ty \<and> \<not> is_fp32 dst_sca_ty) \<or>
          (is_bf16 dst_sca_ty \<and> \<not> is_fp32 src_sca_ty) then Inl (NameError ''case'')
       \<comment> \<open>FP truncation\<close>
       else if is_floating src_sca_ty \<and> is_floating dst_sca_ty \<and>
               get_fp_mantissa_width src_sca_ty > get_fp_mantissa_width dst_sca_ty then
         emit_block (create_fp_trunc (handle input) dst_ty) dst_ty b
       \<comment> \<open>FP extension\<close>
       else if is_floating src_sca_ty \<and> is_floating dst_sca_ty \<and>
               get_fp_mantissa_width src_sca_ty < get_fp_mantissa_width dst_sca_ty then
         emit_block (create_fp_ext (handle input) dst_ty) dst_ty b
       \<comment> \<open>Int cast\<close>
       else if is_int src_sca_ty \<and> is_int dst_sca_ty \<and>
               (int_bitwidth src_sca_ty \<noteq> int_bitwidth dst_sca_ty \<or>
                int_signedness src_sca_ty \<noteq> int_signedness dst_sca_ty) then
         emit_block (create_int_cast (handle input) dst_ty (sign_extend src_sca_ty)) dst_ty b
       \<comment> \<open>Float to Int\<close>
       else if is_floating src_sca_ty \<and> is_int dst_sca_ty then
         (if is_bool dst_sca_ty then emit_block (create_fp_to_ui (handle input) dst_ty) dst_ty b
          else emit_block (create_fp_to_si (handle input) dst_ty) dst_ty b)
       \<comment> \<open>int => float\<close>
       else if is_int src_sca_ty \<and> is_floating dst_sca_ty then
         emit_block (int_to_fp src_sca_ty (handle input) dst_ty) dst_ty b
       \<comment> \<open>ptr => int, at bit-widths 64 and 1; any other width falls through\<close>
       else if is_ptr src_sca_ty \<and> is_int dst_sca_ty \<and> int_bitwidth dst_sca_ty = Some 64 then
         emit_block (create_cast_PtrToInt (handle input) dst_ty) dst_ty b
       else if is_ptr src_sca_ty \<and> is_int dst_sca_ty \<and> int_bitwidth dst_sca_ty = Some 1 then
         and_then (cast_ptr_to_int64 input b) (\<lambda>(i64, b1).
           not_equal_int64 i64 (block (get_int64 0) (scalar_type int64)) b1)
       else if \<not> is_ptr src_sca_ty \<and> is_ptr dst_sca_ty then
         emit_block (create_int_to_ptr (handle input) dst_ty) dst_ty b
       \<comment> \<open>Ptr . Ptr\<close>
       else if is_ptr src_sca_ty \<and> is_ptr dst_sca_ty then
         emit_block (create_bitcast (handle input) dst_ty) dst_ty b
       \<comment> \<open>* . Bool\<close>
       else if is_bool dst_sca_ty then
         and_then (if is_ptr src_sca_ty then cast_ptr_to_int64 input b else Inr (input, b))
           (\<lambda>(input, b1).
             (let other = get_int64 0;
                  (other, b2) =
                    (if is_bool (scalar src_ty)
                     then emit (create_splat other (get_block_shapes src_ty)) b1
                     else (other, b1))
              in emit_block (create_icmpNE (handle input) other) dst_ty b2))
       else Inl AssertionError))"

section \<open>Binary operators\<close>

definition check_ptr_type_impl :: "dtype \<Rightarrow> dtype \<Rightarrow> bool \<Rightarrow> error + unit" where
  "check_ptr_type_impl type_a type_b allow_ptr_a =
    (if is_ptr type_a then
       (if \<not> allow_ptr_a then Inl (IncompatibleTypeErrorimpl type_a type_b)
        \<comment> \<open>T* + U* with T != U\<close>
        else if is_ptr type_b \<and> type_a \<noteq> type_b then Inl (IncompatibleTypeErrorimpl type_a type_b)
        \<comment> \<open>T* + float\<close>
        else if is_floating type_b then Inl (IncompatibleTypeErrorimpl type_a type_b)
        else Inr ())
     else Inr ())"

definition binary_op_type_checking_impl ::
    "block \<Rightarrow> block \<Rightarrow> builder \<Rightarrow> bool \<Rightarrow> bool \<Rightarrow> bool \<Rightarrow> bool \<Rightarrow>
     error + ((block \<times> block) \<times> builder)" where
  "binary_op_type_checking_impl lhs rhs b allow_lhs_ptr allow_rhs_ptr arithmetic_check div_or_mod =
    \<comment> \<open>implicit broadcasting\<close>
    and_then (broadcast_impl_value lhs rhs b) (\<lambda>((lhs, rhs), b1).
      \<comment> \<open>implicit typecasting\<close>
      (let lhs_sca_ty = scalar (type lhs);
           rhs_sca_ty = scalar (type rhs)
       in
       and_then (check_ptr_type_impl lhs_sca_ty rhs_sca_ty allow_lhs_ptr) (\<lambda>_.
       and_then (check_ptr_type_impl rhs_sca_ty lhs_sca_ty allow_rhs_ptr) (\<lambda>_.
         if arithmetic_check \<and> \<not> is_ptr lhs_sca_ty \<and> \<not> is_ptr rhs_sca_ty then
           and_then (computation_type_impl lhs_sca_ty rhs_sca_ty div_or_mod) (\<lambda>ret_sca_ty.
           and_then (cast lhs ret_sca_ty b1) (\<lambda>(lhs, b2).
           and_then (cast rhs ret_sca_ty b2) (\<lambda>(rhs, b3).
             Inr ((lhs, rhs), b3))))
         else Inr ((lhs, rhs), b1)))))"

definition add :: "block \<Rightarrow> block \<Rightarrow> builder \<Rightarrow> error + (block \<times> builder)" where
  "add input other b =
    and_then (binary_op_type_checking_impl input other b True True True False)
      (\<lambda>((input, other), b1).
        (let input_scalar_ty = scalar (type input);
             other_scalar_ty = scalar (type other);
             \<comment> \<open>offset + ptr, ptr + offset: the operands are exchanged, the two scalar
                 kinds read above are not\<close>
             (input, other) =
               (if is_ptr other_scalar_ty \<and> \<not> is_ptr input_scalar_ty then (other, input)
                else (input, other))
         in
         if is_ptr input_scalar_ty then
           emit_block (create_gep (handle input) [handle other]) (type input) b1
         \<comment> \<open>float + float\<close>
         else if is_floating input_scalar_ty then
           emit_block (create_fadd (handle input) (handle other)) (type input) b1
         \<comment> \<open>int + int\<close>
         else if is_int input_scalar_ty then
           emit_block (create_add (handle input) (handle other)) (type input) b1
         else Inl AssertionError))"

definition truediv :: "block \<Rightarrow> block \<Rightarrow> builder \<Rightarrow> error + (block \<times> builder)" where
  "truediv input other b =
    and_then (binary_op_type_checking_impl input other b False False True True)
      (\<lambda>((input, other), b1).
        (let input_scalar_ty = scalar (type input);
             other_scalar_ty = scalar (type other)
         in
         and_then
           \<comment> \<open>float / int\<close>
           (if is_floating input_scalar_ty \<and> is_int other_scalar_ty then
              and_then (cast other input_scalar_ty b1) (\<lambda>(other, b2). Inr ((input, other), b2))
            \<comment> \<open>int / float\<close>
            else if is_int input_scalar_ty \<and> is_floating other_scalar_ty then
              and_then (cast input other_scalar_ty b1) (\<lambda>(input, b2). Inr ((input, other), b2))
            \<comment> \<open>int / int (cast to float32)\<close>
            else if is_int input_scalar_ty \<and> is_int other_scalar_ty then
              and_then (cast input float32 b1) (\<lambda>(input, b2).
              and_then (cast other float32 b2) (\<lambda>(other, b3). Inr ((input, other), b3)))
            \<comment> \<open>float / float (cast to highest exponent type)\<close>
            else if is_floating input_scalar_ty \<and> is_floating other_scalar_ty then
              (if get_fp_mantissa_width input_scalar_ty > get_fp_mantissa_width other_scalar_ty
               then and_then (cast other input_scalar_ty b1)
                      (\<lambda>(other, b2). Inr ((input, other), b2))
               else and_then (cast input other_scalar_ty b1)
                      (\<lambda>(input, b2). Inr ((input, other), b2)))
            \<comment> \<open>unreachable\<close>
            else Inl AssertionError)
           (\<lambda>((input, other), b4).
             emit_block (create_fdiv (handle input) (handle other)) (type input) b4)))"

definition mod_op :: "block \<Rightarrow> block \<Rightarrow> builder \<Rightarrow> error + (block \<times> builder)" where
  "mod_op input other b =
    and_then (binary_op_type_checking_impl input other b False False True True)
      (\<lambda>((input, other), b1).
        (let scalar_ty = scalar (type input);
             other_scalar_ty = scalar (type other)
         in
         \<comment> \<open>float % float\<close>
         if is_floating scalar_ty then
           emit_block (create_frem (handle input) (handle other)) (type input) b1
         \<comment> \<open>% int\<close>
         else if is_int scalar_ty then
           (if int_signedness scalar_ty \<noteq> int_signedness other_scalar_ty then
              Inl (ValueError (ModDifferentSignedness scalar_ty other_scalar_ty))
            else if is_int_signed scalar_ty then
              emit_block (create_srem (handle input) (handle other)) (type input) b1
            else emit_block (create_urem (handle input) (handle other)) (type input) b1)
         else Inl AssertionError))"

definition not_equal :: "block \<Rightarrow> block \<Rightarrow> builder \<Rightarrow> error + (block \<times> builder)" where
  "not_equal input other b =
    and_then (binary_op_type_checking_impl input other b False False True False)
      (\<lambda>((input, other), b1).
        (let scalar_ty = scalar (type input) in
         \<comment> \<open>float == float\<close>
         if is_floating scalar_ty then
           emit_block (create_fcmpUNE (handle input) (handle other)) (type input) b1
         \<comment> \<open>== int\<close>
         else if is_int scalar_ty then
           emit_block (create_icmpNE (handle input) (handle other)) (type input) b1
         else Inl AssertionError))"

section \<open>Memory operators\<close>

text \<open>
  After \<open>broadcast_impl_shape\<close> the mask and the fill of \<open>load\<close> may be bare IR values
  where the rest of \<open>load\<close> reads \<open>.type\<close> and \<open>.handle\<close> of a block. What such a
  read gives is decided by the IR binding, which is not among the sources; \<open>load\<close> takes
  it as the parameter \<open>as_block\<close>. The mask is written \<open>msk\<close>.
\<close>

definition the_block :: "(ir_value \<Rightarrow> error + block) \<Rightarrow> block_or_ir \<Rightarrow> error + block" where
  "the_block as_block v = (case v of Block blk \<Rightarrow> Inr blk | Ir h \<Rightarrow> as_block h)"

text \<open>The broadcasts of mask and fill to the shape of a block of pointers.\<close>

definition load_broadcast ::
    "block \<Rightarrow> block option \<Rightarrow> block option \<Rightarrow> builder \<Rightarrow>
     error + ((block_or_ir option \<times> block_or_ir option) \<times> builder)" where
  "load_broadcast ptr msk other b =
    (if is_block (type ptr) then
       and_then (case msk of
                   None \<Rightarrow> Inr (None, b)
                 | Some m \<Rightarrow>
                     and_then (broadcast_impl_shape m (get_block_shapes (type ptr)) b)
                       (\<lambda>(m, b1). Inr (Some m, b1)))
         (\<lambda>(msk, b1).
       and_then (case other of
                   None \<Rightarrow> Inr (None, b1)
                 | Some ot \<Rightarrow>
                     and_then (broadcast_impl_shape ot (get_block_shapes (type ptr)) b1)
                       (\<lambda>(ot, b2). Inr (Some ot, b2)))
         (\<lambda>(other, b2). Inr ((msk, other), b2)))
     else Inr ((map_option Block msk, map_option Block other), b))"

text \<open>The cache modifier and the eviction policy; \<open>None\<close> and the empty string are falsy.\<close>

definition cache_of :: "string option \<Rightarrow> error + CACHE_MODIFIER" where
  "cache_of cache_modifier =
    (case cache_modifier of
       None \<Rightarrow> Inr NONE
     | Some m \<Rightarrow>
         if m = [] then Inr NONE
         else if m = ''.ca'' then Inr CA
         else if m = ''.cg'' then Inr CG
         else Inl (ValueError (CacheModifierNotSupported m)))"

definition eviction_of :: "string option \<Rightarrow> error + EVICTION_POLICY" where
  "eviction_of eviction_policy =
    (case eviction_policy of
       None \<Rightarrow> Inr NORMAL
     | Some p \<Rightarrow>
         if p = [] then Inr NORMAL
         else if p = ''evict_last'' then Inr EVICT_LAST
         else if p = ''evict_first'' then Inr EVICT_FIRST
         else Inl (ValueError (EvictionPolicyNotSupported p)))"

definition load ::
    "(ir_value \<Rightarrow> error + block) \<Rightarrow> block \<Rightarrow> block option \<Rightarrow> block option \<Rightarrow>
     string option \<Rightarrow> string option \<Rightarrow> bool \<Rightarrow> builder \<Rightarrow> error + (block \<times> builder)" where
  "load as_block ptr msk other cache_modifier eviction_policy is_volatile b =
    (case scalar (type ptr) of
       Pointer element address_space \<Rightarrow>
         and_then (load_broadcast ptr msk other b) (\<lambda>((msk, other), b1).
         and_then (case other of
                     None \<Rightarrow> Inr (None, b1)
                   | Some ot \<Rightarrow>
                       and_then (the_block as_block ot) (\<lambda>ot.
                       and_then (cast ot element b1) (\<lambda>(ot, b2). Inr (Some ot, b2))))
           (\<lambda>(other, b2).
         \<comment> \<open>treat bool* as int8*\<close>
         and_then (if element = int1 then
                     and_then (cast ptr (pointer_type int8 address_space) b2)
                       (\<lambda>(ptr, b3). Inr ((ptr, int8), b3))
                   else Inr ((ptr, element), b2))
           (\<lambda>((ptr, elt_ty), b3).
         and_then (cache_of cache_modifier) (\<lambda>cache.
         and_then (eviction_of eviction_policy) (\<lambda>eviction.
           if \<not> is_block (type ptr) then Inl AssertionError
           else
            (let shape = get_block_shapes (type ptr);
                 dst_ty = block_type elt_ty shape
             in
             if msk = None \<and> other = None then
               emit_block (create_load (handle ptr) cache eviction is_volatile) dst_ty b3
             else if msk = None then Inl (ValueError OtherWithoutMask)
             else
               and_then
                 (case other of
                    None \<Rightarrow>
                      (let (other_ir, b4) =
                             (if is_block (type ptr)
                              then emit (create_splat (undef elt_ty) (get_block_shapes (type ptr))) b3
                              else (undef elt_ty, b3))
                       in \<comment> \<open>the source wraps the undefined name \<open>other_it\<close>\<close>
                          Inl (NameError ''other_it''))
                  | Some ot \<Rightarrow> Inr (ot, b3))
                 (\<lambda>(other, b4).
               and_then (case msk of
                           None \<Rightarrow> Inl AssertionError
                         | Some m \<Rightarrow> the_block as_block m)
                 (\<lambda>msk.
                   emit_block (create_masked_load (handle ptr) (handle msk) (handle other)
                                 cache eviction is_volatile) dst_ty b4))))))))
     | _ \<Rightarrow> Inl (ValueError LoadPointerArgument))"

section \<open>Reductions\<close>

definition reduce_impl ::
    "block \<Rightarrow> int \<Rightarrow> builder \<Rightarrow> string \<Rightarrow> REDUCE_OP \<Rightarrow> REDUCE_OP \<Rightarrow>
     error + (ir_value \<times> builder)" where
  "reduce_impl input axis b name FLOAT_OP INT_OP =
    (let scalar_ty = scalar (type input) in
     \<comment> \<open>input is extended to 32-bits if necessary\<close>
     and_then (if is_int scalar_ty \<and>
                  (case int_bitwidth scalar_ty of Some w \<Rightarrow> w \<le> 32 | None \<Rightarrow> False)
               then cast input int32 b
               else Inr (input, b))
       (\<lambda>(input, b1).
         if is_floating scalar_ty then Inr (emit (create_reduce (handle input) FLOAT_OP axis) b1)
         else if is_int scalar_ty then Inr (emit (create_reduce (handle input) INT_OP axis) b1)
         else Inl AssertionError))"

definition min_op :: "block \<Rightarrow> int \<Rightarrow> builder \<Rightarrow> error + (ir_value \<times> builder)" where
  "min_op input axis b = reduce_impl input axis b ''min'' REDUCE_OP_FMIN REDUCE_OP_MIN"

definition max_op :: "block \<Rightarrow> int \<Rightarrow> builder \<Rightarrow> error + (ir_value \<times> builder)" where
  "max_op input axis b = reduce_impl input axis b ''max'' REDUCE_OP_FMAX REDUCE_OP_MAX"

definition sum_op :: "block \<Rightarrow> int \<Rightarrow> builder \<Rightarrow> error + (ir_value \<times> builder)" where
  "sum_op input axis b = reduce_impl input axis b ''sum'' REDUCE_OP_FADD REDUCE_OP_ADD"

definition xor_sum :: "block \<Rightarrow> int \<Rightarrow> builder \<Rightarrow> error + (ir_value \<times> builder)" where
  "xor_sum input axis b =
    (let scalar_ty = scalar (type input) in
     if \<not> is_int scalar_ty then Inl (ValueError XorSumOnlyIntegers)
     else reduce_impl input axis b ''sum'' REDUCE_OP_XOR REDUCE_OP_XOR)"

section \<open>Comparisons, bitwise and, select\<close>

text \<open>\<open>greater_equal\<close> returns the bare IR value of the comparison.\<close>

definition greater_equal :: "block \<Rightarrow> block \<Rightarrow> builder \<Rightarrow> error + (ir_value \<times> builder)" where
  "greater_equal input other b =
    and_then (binary_op_type_checking_impl input other b False False True False)
      (\<lambda>((input, other), b1).
        (let scalar_ty = scalar (type input) in
         \<comment> \<open>float >= float\<close>
         if is_floating scalar_ty then
           Inr (emit (create_fcmpOGE (handle input) (handle other)) b1)
         \<comment> \<open>>= int\<close>
         else if is_int scalar_ty then
           (if is_int_signed scalar_ty then
              Inr (emit (create_icmpSGE (handle input) (handle other)) b1)
            else Inr (emit (create_icmpUGE (handle input) (handle other)) b1))
         else Inl AssertionError))"

text \<open>\<open>less_than\<close> wraps the comparison as a block of the type of its left operand.\<close>

definition less_than :: "block \<Rightarrow> block \<Rightarrow> builder \<Rightarrow> error + (block \<times> builder)" where
  "less_than input other b =
    and_then (binary_op_type_checking_impl input other b False False True False)
      (\<lambda>((input, other), b1).
        (let scalar_ty = scalar (type input) in
         \<comment> \<open>float < float\<close>
         if is_floating scalar_ty then
           emit_block (create_fcmpOLT (handle input) (handle other)) (type input) b1
         \<comment> \<open>< int\<close>
         else if is_int scalar_ty then
           (if is_int_signed scalar_ty then
              emit_block (create_icmpSLT (handle input) (handle other)) (type input) b1
            else emit_block (create_icmpULT (handle input) (handle other)) (type input) b1)
         else Inl AssertionError))"

definition bitwise_op_type_checking_impl ::
    "block \<Rightarrow> block \<Rightarrow> builder \<Rightarrow> error + ((block \<times> block) \<times> builder)" where
  "bitwise_op_type_checking_impl input other b =
    and_then (binary_op_type_checking_impl input other b False False False False)
      (\<lambda>((input, other), b1).
        (let input_sca_ty = scalar (type input);
             other_sca_ty = scalar (type other)
         in
         if \<not> is_int input_sca_ty \<or> \<not> is_int other_sca_ty then
           Inl (IncompatibleTypeErrorimpl input_sca_ty other_sca_ty)
         else
           and_then (integer_promote_impl input_sca_ty other_sca_ty) (\<lambda>ret_sca_ty.
           and_then (if ret_sca_ty \<noteq> input_sca_ty then cast input ret_sca_ty b1
                     else Inr (input, b1)) (\<lambda>(input, b2).
           and_then (if ret_sca_ty \<noteq> other_sca_ty then cast other ret_sca_ty b2
                     else Inr (other, b2)) (\<lambda>(other, b3).
             Inr ((input, other), b3))))))"

definition and_op :: "block \<Rightarrow> block \<Rightarrow> builder \<Rightarrow> error + (block \<times> builder)" where
  "and_op input other b =
    and_then (bitwise_op_type_checking_impl input other b) (\<lambda>((input, other), b1).
      emit_block (create_and (handle input) (handle other)) (type input) b1)"

text \<open>
  \<open>where\<close> of the source. Its operands may be bare IR values (\<open>atomic_max\<close> passes
  three of them); \<open>as_block\<close> is what reading them as blocks gives, as in \<open>load\<close>.
\<close>

definition where_op ::
    "(ir_value \<Rightarrow> error + block) \<Rightarrow> block_or_ir \<Rightarrow> block_or_ir \<Rightarrow> block_or_ir \<Rightarrow> builder \<Rightarrow>
     error + (block \<times> builder)" where
  "where_op as_block condition x y b =
    and_then (the_block as_block condition) (\<lambda>condition.
    and_then (cast condition int1 b) (\<lambda>(condition, b1).
    and_then
      (if is_block (type condition) then
         and_then (the_block as_block x) (\<lambda>x.
         and_then (broadcast_impl_shape x (get_block_shapes (type condition)) b1) (\<lambda>(x, b2).
         and_then (the_block as_block y) (\<lambda>y.
         and_then (broadcast_impl_shape y (get_block_shapes (type condition)) b2) (\<lambda>(y, b3).
           Inr ((x, y), b3)))))
       else Inr ((x, y), b1))
      (\<lambda>((x, y), b3).
    and_then (the_block as_block x) (\<lambda>x.
    and_then (the_block as_block y) (\<lambda>y.
      (let x_ty = scalar (type x);
           y_ty = scalar (type y)
       in
       and_then (computation_type_impl x_ty y_ty False) (\<lambda>ty.
       and_then (cast x ty b3) (\<lambda>(x, b4).
       and_then (cast y ty b4) (\<lambda>(y, b5).
         emit_block (create_select (handle condition) (handle x) (handle y))
           (scalar_type ty) b5)))))))))"

section \<open>Bitcast\<close>

text \<open>
  Modelled from the spec: \<open>primitive_bitwidth\<close> of module \<open>core\<close>, the raw storage
  width of a kind (the boolean kind is 1 bit). \<open>bitcast\<close> reads it on kinds that are
  not pointers.
\<close>

fun primitive_bitwidth :: "dtype \<Rightarrow> nat option" where
  "primitive_bitwidth Bool = Some 1"
| "primitive_bitwidth (IntTy w _) = Some (width_bits w)"
| "primitive_bitwidth Float16 = Some 16"
| "primitive_bitwidth BFloat16 = Some 16"
| "primitive_bitwidth Float32 = Some 32"
| "primitive_bitwidth Float64 = Some 64"
| "primitive_bitwidth (Pointer _ _) = None"

text \<open>
  When a pointer kind is involved \<open>bitcast\<close> hands over to \<open>cast\<close>, passing the
  destination type it has built. For a block source that is a block type where \<open>cast\<close>
  expects a kind, and \<open>cast\<close> builds a block type of a block type: what module
  \<open>core\<close> makes of it is not decided by the sources, and \<open>bitcast\<close> takes it as the
  parameter \<open>cast_to_block_type\<close>.
\<close>

definition bitcast ::
    "(block \<Rightarrow> ty \<Rightarrow> builder \<Rightarrow> error + (block \<times> builder)) \<Rightarrow>
     block \<Rightarrow> dtype \<Rightarrow> builder \<Rightarrow> error + (block \<times> builder)" where
  "bitcast cast_to_block_type input dst b =
    (let src_ty = type input;
         dst_ty = cast_dst_ty src_ty dst
     in
     if src_ty = dst_ty then Inr (input, b)
     else
      (let src_sca_ty = scalar src_ty;
           dst_sca_ty = scalar dst_ty
       in
       if is_ptr src_sca_ty \<or> is_ptr dst_sca_ty then
         (if is_block src_ty then cast_to_block_type input dst_ty b else cast input dst b)
       \<comment> \<open>Bitcast\<close>
       else if primitive_bitwidth src_sca_ty \<noteq> primitive_bitwidth dst_sca_ty then
         Inl (ValueError CannotBitcast)
       else emit_block (create_bitcast (handle input) dst_ty) dst_ty b))"

section \<open>Atomic operators\<close>

text \<open>
  \<open>atom_red_typechecking_impl\<close> builds the default mask with \<open>core.block\<close> given a
  handle and no type; what block that is belongs to the absent module \<open>core\<close> and is the
  parameter \<open>block_of\<close>. The mask it returns may be a bare IR value.
\<close>

definition atom_red_typechecking_impl ::
    "(ir_value \<Rightarrow> error + block) \<Rightarrow> (ir_value \<Rightarrow> error + block) \<Rightarrow>
     block \<Rightarrow> block \<Rightarrow> block option \<Rightarrow> builder \<Rightarrow>
     error + ((block \<times> block \<times> block_or_ir) \<times> builder)" where
  "atom_red_typechecking_impl as_block block_of ptr val msk b =
    (case scalar (type ptr) of
       Pointer element address_space \<Rightarrow>
         and_then
           (if is_block (type ptr) then
              and_then (case msk of
                          None \<Rightarrow> Inr (None, b)
                        | Some m \<Rightarrow>
                            and_then (broadcast_impl_shape m (get_block_shapes (type ptr)) b)
                              (\<lambda>(m, b1). Inr (Some m, b1)))
                (\<lambda>(msk, b1).
              and_then (broadcast_impl_shape val (get_block_shapes (type ptr)) b1)
                (\<lambda>(val, b2). Inr ((msk, val), b2)))
            else Inr ((map_option Block msk, Block val), b))
           (\<lambda>((msk, val), b2).
         and_then (the_block as_block val) (\<lambda>val.
         and_then (cast val element b2) (\<lambda>(val, b3).
         and_then
           (case msk of
              None \<Rightarrow>
                (let (mask_ir, b4) =
                       (if is_block (type ptr)
                        then emit (create_splat (get_int1 True) (get_block_shapes (type ptr))) b3
                        else (get_int1 True, b3))
                 in and_then (block_of mask_ir) (\<lambda>m. Inr (Block m, b4)))
            | Some m \<Rightarrow> Inr (m, b3))
           (\<lambda>(msk, b4). Inr ((ptr, val, msk), b4)))))
     | _ \<Rightarrow> Inl (ValueError StorePointerArgument))"

definition atomic_max ::
    "(ir_value \<Rightarrow> error + block) \<Rightarrow> (ir_value \<Rightarrow> error + block) \<Rightarrow>
     (block \<Rightarrow> ty \<Rightarrow> builder \<Rightarrow> error + (block \<times> builder)) \<Rightarrow>
     block \<Rightarrow> block \<Rightarrow> block option \<Rightarrow> builder \<Rightarrow> error + (block \<times> builder)" where
  "atomic_max as_block block_of cast_to_block_type ptr val msk b =
    and_then (atom_red_typechecking_impl as_block block_of ptr val msk b)
      (\<lambda>((ptr, val, msk), b1).
        (let sca_ty = scalar (type val) in
         \<comment> \<open>direct call to atomic_max for integers\<close>
         if is_int sca_ty then
           and_then (the_block as_block msk) (\<lambda>msk.
             if is_int_signed sca_ty then
               emit_block (create_atomic_rmw ATOMIC_OP_MAX (handle ptr) (handle val) (handle msk))
                 (type val) b1
             else
               emit_block (create_atomic_rmw ATOMIC_OP_UMAX (handle ptr) (handle val) (handle msk))
                 (type val) b1)
         \<comment> \<open>for float\<close>
         else
           and_then (bitcast cast_to_block_type val int32 b1) (\<lambda>(i_val, b2).
           and_then (bitcast cast_to_block_type ptr (pointer_type int32 1) b2) (\<lambda>(i_ptr, b3).
           and_then (greater_equal val (block (constant_float sca_ty 0) (scalar_type sca_ty)) b3)
             (\<lambda>(pos, b4).
           and_then (less_than val (block (constant_float sca_ty 0) (scalar_type sca_ty)) b4)
             (\<lambda>(neg, b5).
           and_then (the_block as_block msk) (\<lambda>mask_block.
           and_then (as_block pos) (\<lambda>pos_block.
           and_then (and_op mask_block pos_block b5) (\<lambda>(mask_pos, b6).
             (let (pos_ret, b7) =
                    emit (create_atomic_rmw ATOMIC_OP_MAX (handle i_ptr) (handle i_val)
                            (handle mask_pos)) b6
              in
              and_then (and_op mask_block neg b7) (\<lambda>(mask_neg, b8).
                (let (neg_ret, b9) =
                       emit (create_atomic_rmw ATOMIC_OP_UMIN (handle i_ptr) (handle i_val)
                               (handle mask_neg)) b8
                 in where_op as_block (Ir pos) (Ir pos_ret) (Ir neg_ret) b9))))))))))))"

section \<open>Properties of the conversion engine\<close>

lemma width_bits_inj: "width_bits w = width_bits w' \<longleftrightarrow> w = w'"
  by (cases w; cases w'; simp)

lemma width_bits_not_one: "width_bits w \<noteq> Suc 0" "Suc 0 \<noteq> width_bits w"
  by (cases w; simp)+

lemma integer_promote_impl_commute:
  "integer_promote_impl b a = integer_promote_impl a b"
proof (cases "is_int a \<and> is_int b")
  case False
  then show ?thesis
    by (cases a; cases b; simp add: integer_promote_impl_def)
next
  case True
  then obtain ra rb sa sb where
    f: "int_bitwidth a = Some ra" "int_bitwidth b = Some rb"
       "int_signedness a = Some sa" "int_signedness b = Some sb"
    by (cases a; cases b; simp)
  have eq: "ra = rb \<Longrightarrow> sa = sb \<Longrightarrow> a = b"
    using f True
    by (cases a; cases b; auto simp: width_bits_inj width_bits_not_one)
  show ?thesis
    using f eq by (cases sa; cases sb; auto simp: integer_promote_impl_def)
qed

text \<open>
  C2. For every pair of scalar kinds and both values of the \<open>div_or_mod\<close> flag,
  \<open>computation_type_impl\<close> gives the same outcome in either operand order: the same
  result kind, or the same exception (a failed assertion in both orders, or the
  different-signedness \<open>ValueError\<close> in both orders, naming the operands in the order
  given).
\<close>

theorem computation_type_impl_commutative:
  "computation_type_impl b a m = map_sum mirrored id (computation_type_impl a b m)"
proof -
  have "integer_promote_impl a b = map_sum mirrored id (integer_promote_impl a b)"
    by (auto simp: integer_promote_impl_def split: option.splits)
  then show ?thesis
    unfolding computation_type_impl_def
    by (auto simp: integer_promote_impl_commute)
qed

theorem computation_type_impl_commutative_witness:
  "computation_type_impl uint16 int8 True = Inl (ValueError (DifferentSignedness uint16 int8))
 \<and> computation_type_impl int8 uint16 True = Inl (ValueError (DifferentSignedness int8 uint16))
 \<and> computation_type_impl uint8 int32 False = Inr int32
 \<and> computation_type_impl int32 uint8 False = Inr int32
 \<and> computation_type_impl bfloat16 int32 False = Inl AssertionError
 \<and> computation_type_impl int32 bfloat16 False = Inl AssertionError"
  using computation_type_impl_commutative [of uint16 int8 True]
        computation_type_impl_commutative [of uint8 int32 False]
        computation_type_impl_commutative [of bfloat16 int32 False]
  by (simp add: computation_type_impl_def integer_promote_impl_def)

section \<open>Properties of the broadcast engine\<close>

lemma ret_shape_loop_ok:
  "length ls = length rs \<Longrightarrow> list_all2 axis_compatible ls rs \<Longrightarrow>
   ret_shape_loop i ls rs acc = Inr (acc @ shape_compatible ls rs)"
proof (induction ls rs arbitrary: i acc rule: list_induct2)
  case Nil
  then show ?case by (simp add: shape_compatible_def)
next
  case (Cons l ls r rs)
  then show ?case
    by (auto simp: shape_compatible_def axis_compatible_def axis_result_def)
qed

lemma ret_shape_loop_fail:
  "length ls = length rs \<Longrightarrow> k < length ls \<Longrightarrow>
   list_all2 axis_compatible (take k ls) (take k rs) \<Longrightarrow>
   \<not> axis_compatible (ls ! k) (rs ! k) \<Longrightarrow>
   ret_shape_loop i ls rs acc = Inl (ValueError (IncompatibleDimensions (i + k) (ls ! k) (rs ! k)))"
proof (induction ls rs arbitrary: i k acc rule: list_induct2)
  case Nil
  then show ?case by simp
next
  case (Cons l ls r rs)
  show ?case
  proof (cases k)
    case 0
    with Cons.prems show ?thesis by (auto simp: axis_compatible_def)
  next
    case (Suc k')
    with Cons.prems have c: "axis_compatible l r"
      and rest: "k' < length ls" "list_all2 axis_compatible (take k' ls) (take k' rs)"
        "\<not> axis_compatible (ls ! k') (rs ! k')"
      by auto
    from Cons.IH [OF rest, of "Suc i"] c Suc show ?thesis
      by (auto simp: axis_compatible_def)
  qed
qed

lemma ty_eq_block_type: "block_type (scalar t) (get_block_shapes t) = t"
  by (simp add: block_type_def)

text \<open>
  C9. For two block operands, \<open>broadcast_impl_value\<close> fails with the same-rank
  \<open>ValueError\<close> whenever the ranks differ; at equal rank, when every axis has a side
  equal to 1 or two equal sides, both operands come back with the shape that takes, per
  axis, the other side where a side is 1 and the common value otherwise; and at equal rank
  the first axis \<open>k\<close> with two different sizes, neither of them 1, makes the call fail
  with the \<open>ValueError\<close> that names \<open>k\<close> and the two sizes.
\<close>

theorem broadcast_impl_value_shape_resolution:
  assumes "is_block (type lhs)" and "is_block (type rhs)"
  shows "(length (get_block_shapes (type lhs)) \<noteq> length (get_block_shapes (type rhs)) \<longrightarrow>
            broadcast_impl_value lhs rhs b = Inl (ValueError SameRank))
       \<and> (length (get_block_shapes (type lhs)) = length (get_block_shapes (type rhs)) \<and>
          list_all2 axis_compatible (get_block_shapes (type lhs)) (get_block_shapes (type rhs)) \<longrightarrow>
            (\<exists>lhs' rhs' b'. broadcast_impl_value lhs rhs b = Inr ((lhs', rhs'), b')
               \<and> type lhs' = block_type (scalar (type lhs))
                     (shape_compatible (get_block_shapes (type lhs)) (get_block_shapes (type rhs)))
               \<and> type rhs' = block_type (scalar (type rhs))
                     (shape_compatible (get_block_shapes (type lhs)) (get_block_shapes (type rhs)))))
       \<and> (\<forall>k. length (get_block_shapes (type lhs)) = length (get_block_shapes (type rhs)) \<and>
              k < length (get_block_shapes (type lhs)) \<and>
              list_all2 axis_compatible (take k (get_block_shapes (type lhs)))
                                        (take k (get_block_shapes (type rhs))) \<and>
              \<not> axis_compatible (get_block_shapes (type lhs) ! k) (get_block_shapes (type rhs) ! k) \<longrightarrow>
            broadcast_impl_value lhs rhs b =
              Inl (ValueError (IncompatibleDimensions k (get_block_shapes (type lhs) ! k)
                                                       (get_block_shapes (type rhs) ! k))))"
proof (intro conjI impI allI)
  assume "length (get_block_shapes (type lhs)) \<noteq> length (get_block_shapes (type rhs))"
  with assms show "broadcast_impl_value lhs rhs b = Inl (ValueError SameRank)"
    by (simp add: broadcast_impl_value_def Let_def)
next
  let ?ls = "get_block_shapes (type lhs)" and ?rs = "get_block_shapes (type rhs)"
  assume h: "length ?ls = length ?rs \<and> list_all2 axis_compatible ?ls ?rs"
  then have loop: "ret_shape_loop 0 ?ls ?rs [] = Inr (shape_compatible ?ls ?rs)"
    using ret_shape_loop_ok [of ?ls ?rs 0 "[]"] by simp
  show "\<exists>lhs' rhs' b'. broadcast_impl_value lhs rhs b = Inr ((lhs', rhs'), b')
          \<and> type lhs' = block_type (scalar (type lhs)) (shape_compatible ?ls ?rs)
          \<and> type rhs' = block_type (scalar (type rhs)) (shape_compatible ?ls ?rs)"
    using assms h loop
    by (auto simp: broadcast_impl_value_def Let_def emit_def block_def block_type_def
             split: prod.splits)
next
  fix k
  let ?ls = "get_block_shapes (type lhs)" and ?rs = "get_block_shapes (type rhs)"
  assume h: "length ?ls = length ?rs \<and> k < length ?ls \<and>
             list_all2 axis_compatible (take k ?ls) (take k ?rs) \<and>
             \<not> axis_compatible (?ls ! k) (?rs ! k)"
  then have "ret_shape_loop 0 ?ls ?rs [] = Inl (ValueError (IncompatibleDimensions k (?ls ! k) (?rs ! k)))"
    using ret_shape_loop_fail [of ?ls ?rs k 0 "[]"] by simp
  with assms h show "broadcast_impl_value lhs rhs b =
      Inl (ValueError (IncompatibleDimensions k (?ls ! k) (?rs ! k)))"
    by (simp add: broadcast_impl_value_def Let_def)
qed

theorem broadcast_impl_value_shape_resolution_witness:
  "broadcast_impl_value (block (Param 0) (block_type int32 [2])) (block (Param 1) (block_type int32 [3])) []
     = Inl (ValueError (IncompatibleDimensions 0 2 3))
 \<and> broadcast_impl_value (block (Param 0) (block_type int32 [2, 2])) (block (Param 1) (block_type int32 [3])) []
     = Inl (ValueError SameRank)
 \<and> (\<exists>lhs' rhs' b'.
      broadcast_impl_value (block (Param 0) (block_type int32 [1, 5])) (block (Param 1) (block_type int8 [3, 1])) []
        = Inr ((lhs', rhs'), b')
      \<and> type lhs' = block_type int32 [3, 5] \<and> type rhs' = block_type int8 [3, 5])
 \<and> (\<exists>lhs' rhs' b'.
      broadcast_impl_value (block (Param 0) (block_type int32 [3, 5])) (block (Param 1) (block_type int8 [3, 5])) []
        = Inr ((lhs', rhs'), b')
      \<and> type lhs' = block_type int32 [3, 5] \<and> type rhs' = block_type int8 [3, 5])"
proof -
  have blk: "\<And>h d s. s \<noteq> [] \<Longrightarrow> is_block (type (block h (block_type d s)))"
    by (simp add: is_block_def block_def block_type_def)
  have a: "is_block (type (block (Param 0) (block_type int32 [2])))"
    and b: "is_block (type (block (Param 1) (block_type int32 [3])))"
    and c: "is_block (type (block (Param 0) (block_type int32 [2, 2])))"
    and d: "is_block (type (block (Param 0) (block_type int32 [1, 5])))"
    and e: "is_block (type (block (Param 1) (block_type int8 [3, 1])))"
    and f: "is_block (type (block (Param 0) (block_type int32 [3, 5])))"
    and g: "is_block (type (block (Param 1) (block_type int8 [3, 5])))"
    by (simp_all add: blk)
  show ?thesis
    using broadcast_impl_value_shape_resolution [OF a b, of "[]"]
      broadcast_impl_value_shape_resolution [OF c b, of "[]"]
      broadcast_impl_value_shape_resolution [OF d e, of "[]"]
      broadcast_impl_value_shape_resolution [OF f g, of "[]"]
    by (simp add: block_def block_type_def axis_compatible_def axis_result_def
          shape_compatible_def)
qed

text \<open>
  C10. When one operand is a block and the other a rank-0 scalar, the scalar is splatted
  to the block's shape and the new value is given the block operand's whole type, the
  element kind included: the scalar's own element kind is not kept.
\<close>

theorem broadcast_impl_value_splat_type:
  "(is_block (type lhs) \<and> \<not> is_block (type rhs) \<longrightarrow>
      broadcast_impl_value lhs rhs b =
        Inr ((lhs, block (Result (length b)) (type lhs)),
             b @ [create_splat (handle rhs) (get_block_shapes (type lhs))]))
 \<and> (\<not> is_block (type lhs) \<and> is_block (type rhs) \<longrightarrow>
      broadcast_impl_value lhs rhs b =
        Inr ((block (Result (length b)) (type rhs), rhs),
             b @ [create_splat (handle lhs) (get_block_shapes (type rhs))]))"
  by (simp add: broadcast_impl_value_def Let_def emit_def)


theorem broadcast_impl_value_splat_type_witness:
  "broadcast_impl_value (block (Param 0) (block_type float32 [128])) (block (Param 1) (scalar_type int32)) []
     = Inr ((block (Param 0) (block_type float32 [128]), block (Result 0) (block_type float32 [128])),
            [create_splat (Param 1) [128]])
 \<and> broadcast_impl_value (block (Param 0) (scalar_type int32)) (block (Param 1) (block_type float32 [128])) []
     = Inr ((block (Result 0) (block_type float32 [128]), block (Param 1) (block_type float32 [128])),
            [create_splat (Param 0) [128]])"
  using broadcast_impl_value_splat_type
          [of "block (Param 0) (block_type float32 [128])" "block (Param 1) (scalar_type int32)" "[]"]
        broadcast_impl_value_splat_type
          [of "block (Param 0) (scalar_type int32)" "block (Param 1) (block_type float32 [128])" "[]"]
  by (simp add: block_def block_type_def scalar_type_def is_block_def)

section \<open>Properties of cast and of the binary operators\<close>

lemma type_block [simp]: "type (block h t) = t" "handle (block h t) = h"
  by (simp_all add: block_def)

lemma block_type_sel [simp]:
  "scalar (block_type d s) = d" "get_block_shapes (block_type d s) = s"
  by (simp_all add: block_type_def)

lemma scalar_type_eq: "scalar_type d = block_type d []"
  by (simp add: scalar_type_def block_type_def)

lemma block_type_inj [simp]: "block_type d s = block_type d' s' \<longleftrightarrow> d = d' \<and> s = s'"
  by (auto simp: block_type_def)

lemma cast_dst_ty_block_type [simp]: "cast_dst_ty (block_type d s) dst = block_type dst s"
  by (simp add: cast_dst_ty_def is_block_def scalar_type_eq)

lemma int_kind_eq:
  "is_int a \<Longrightarrow> is_int b \<Longrightarrow> int_bitwidth a = int_bitwidth b \<Longrightarrow>
   int_signedness a = int_signedness b \<Longrightarrow> a = b"
  by (cases a; cases b; auto simp: width_bits_inj width_bits_not_one)

lemma int_not_others:
  "is_int a \<Longrightarrow> \<not> is_bf16 a \<and> \<not> is_floating a \<and> \<not> is_ptr a \<and> \<not> is_fp32 a \<and> \<not> is_fp64 a \<and> \<not> is_fp16 a"
  by (cases a; simp)

lemma cast_same: "cast (block h (block_type d s)) d b = Inr (block h (block_type d s), b)"
  by (simp add: cast_def Let_def)

lemma cast_int_int:
  assumes "is_int src" "is_int dst" "src \<noteq> dst"
  shows "cast (block h (block_type src s)) dst b =
    Inr (block (Result (length b)) (block_type dst s),
         b @ [create_int_cast h (block_type dst s) (sign_extend src)])"
proof -
  have d: "int_bitwidth src \<noteq> int_bitwidth dst \<or> int_signedness src \<noteq> int_signedness dst"
    using assms int_kind_eq by blast
  show ?thesis
    using assms d int_not_others [of src] int_not_others [of dst]
    by (simp add: cast_def emit_block_def emit_def Let_def)
qed

lemma cast_int_fp32:
  assumes "is_int src"
  shows "cast (block h (block_type src s)) float32 b =
    Inr (block (Result (length b)) (block_type float32 s),
         b @ [int_to_fp src h (block_type float32 s)])"
  using assms int_not_others [of src]
  by (auto simp add: cast_def emit_block_def emit_def Let_def)

lemma ret_shape_loop_same: "ret_shape_loop i s s acc = Inr (acc @ s)"
  by (induction s arbitrary: i acc) auto

lemma broadcast_impl_value_same_shape:
  "get_block_shapes (type lhs) = get_block_shapes (type rhs) \<Longrightarrow>
   broadcast_impl_value lhs rhs b = Inr ((lhs, rhs), b)"
  by (simp add: broadcast_impl_value_def Let_def ret_shape_loop_same is_block_def)

lemma check_ptr_type_impl_not_ptr: "\<not> is_ptr a \<Longrightarrow> check_ptr_type_impl a b allow = Inr ()"
  by (simp add: check_ptr_type_impl_def)

lemma binary_op_arith:
  assumes "\<not> is_ptr a" "\<not> is_ptr c"
  shows "binary_op_type_checking_impl (block x (block_type a s)) (block y (block_type c s)) b al ar True m =
    and_then (computation_type_impl a c m) (\<lambda>ret_sca_ty.
    and_then (cast (block x (block_type a s)) ret_sca_ty b) (\<lambda>(lhs, b2).
    and_then (cast (block y (block_type c s)) ret_sca_ty b2) (\<lambda>(rhs, b3).
      Inr ((lhs, rhs), b3))))"
  using assms
  by (simp add: binary_op_type_checking_impl_def broadcast_impl_value_same_shape
        and_then_def check_ptr_type_impl_not_ptr)

lemma integer_promote_impl_cases:
  assumes "is_int a" "is_int c"
  shows "\<exists>p. integer_promote_impl a c = Inr p \<and> (p = a \<or> p = c)"
proof -
  obtain ra rc sa sc where
    f: "int_bitwidth a = Some ra" "int_bitwidth c = Some rc"
       "int_signedness a = Some sa" "int_signedness c = Some sc"
    using assms by (cases a; cases c; simp)
  then show ?thesis
    by (cases sa; cases sc; simp add: integer_promote_impl_def)
qed

text \<open>
  True-divide on two integer operands of one shape: the signedness guard, then the
  promotion, the two conversions to \<open>float32\<close> and the divide.
\<close>

lemma truediv_same_shape:
  assumes "is_int a" and "is_int c"
  shows "(int_signedness a \<noteq> int_signedness c \<longrightarrow>
            truediv (block x (block_type a s)) (block y (block_type c s)) b =
              Inl (ValueError (DifferentSignedness a c)))
       \<and> (int_signedness a = int_signedness c \<longrightarrow>
            (\<exists>p. integer_promote_impl a c = Inr p \<and> (p = a \<or> p = c) \<and>
              (let pre_a = (if a = p then [] else [create_int_cast x (block_type p s) (sign_extend a)]);
                   xa = (if a = p then x else Result (length b));
                   pre_c = (if c = p then [] else [create_int_cast y (block_type p s) (sign_extend c)]);
                   xc = (if c = p then y else Result (length b + length pre_a));
                   n = length b + length pre_a + length pre_c
               in truediv (block x (block_type a s)) (block y (block_type c s)) b =
                    Inr (block (Result (n + 2)) (block_type float32 s),
                         b @ pre_a @ pre_c @
                         [int_to_fp p xa (block_type float32 s),
                          int_to_fp p xc (block_type float32 s),
                          create_fdiv (Result n) (Result (n + 1))]))))"
proof (intro conjI impI)
  assume d: "int_signedness a \<noteq> int_signedness c"
  have np: "\<not> is_ptr a" "\<not> is_ptr c"
    using assms int_not_others by blast+
  have "computation_type_impl a c True = Inl (ValueError (DifferentSignedness a c))"
    using assms d int_not_others [of a] int_not_others [of c]
    by (simp add: computation_type_impl_def)
  then show "truediv (block x (block_type a s)) (block y (block_type c s)) b =
      Inl (ValueError (DifferentSignedness a c))"
    by (simp add: truediv_def binary_op_arith [OF np] and_then_def)
next
  assume e: "int_signedness a = int_signedness c"
  have np: "\<not> is_ptr a" "\<not> is_ptr c"
    using assms int_not_others by blast+
  obtain p where p: "integer_promote_impl a c = Inr p" "p = a \<or> p = c"
    using integer_promote_impl_cases [OF assms] by blast
  have ip: "is_int p" using p assms by auto
  have ct: "computation_type_impl a c True = Inr p"
    using assms e p int_not_others [of a] int_not_others [of c]
    by (simp add: computation_type_impl_def)
  have fl: "\<not> is_floating p" using ip int_not_others by blast
  define pre_a where "pre_a = (if a = p then [] else [create_int_cast x (block_type p s) (sign_extend a)])"
  define xa where "xa = (if a = p then x else Result (length b))"
  define pre_c where "pre_c = (if c = p then [] else [create_int_cast y (block_type p s) (sign_extend c)])"
  define xc where "xc = (if c = p then y else Result (length b + length pre_a))"
  define n where "n = length b + length pre_a + length pre_c"
  have ca: "cast (block x (block_type a s)) p b = Inr (block xa (block_type p s), b @ pre_a)"
    using assms ip
    by (cases "a = p") (simp_all add: cast_same cast_int_int pre_a_def xa_def)
  have cc: "cast (block y (block_type c s)) p (b @ pre_a) =
      Inr (block xc (block_type p s), b @ pre_a @ pre_c)"
    using assms ip
    by (cases "c = p") (simp_all add: cast_same cast_int_int pre_c_def xc_def)
  have bo: "binary_op_type_checking_impl (block x (block_type a s)) (block y (block_type c s)) b
              False False True True =
            Inr ((block xa (block_type p s), block xc (block_type p s)), b @ pre_a @ pre_c)"
    by (simp add: binary_op_arith [OF np] ct ca cc and_then_def)
  have td: "truediv (block x (block_type a s)) (block y (block_type c s)) b =
      Inr (block (Result (n + 2)) (block_type float32 s),
           b @ pre_a @ pre_c @
           [int_to_fp p xa (block_type float32 s),
            int_to_fp p xc (block_type float32 s),
            create_fdiv (Result n) (Result (n + 1))])"
    using ip fl
    by (simp add: truediv_def bo and_then_def cast_int_fp32 emit_block_def emit_def n_def)
  show "\<exists>p. integer_promote_impl a c = Inr p \<and> (p = a \<or> p = c) \<and>
              (let pre_a = (if a = p then [] else [create_int_cast x (block_type p s) (sign_extend a)]);
                   xa = (if a = p then x else Result (length b));
                   pre_c = (if c = p then [] else [create_int_cast y (block_type p s) (sign_extend c)]);
                   xc = (if c = p then y else Result (length b + length pre_a));
                   n = length b + length pre_a + length pre_c
               in truediv (block x (block_type a s)) (block y (block_type c s)) b =
                    Inr (block (Result (n + 2)) (block_type float32 s),
                         b @ pre_a @ pre_c @
                         [int_to_fp p xa (block_type float32 s),
                          int_to_fp p xc (block_type float32 s),
                          create_fdiv (Result n) (Result (n + 1))]))"
    using p td unfolding Let_def pre_a_def xa_def pre_c_def xc_def n_def
    by (intro exI [of _ p]) simp
qed


text \<open>
  The claim as written fails at its own example: blocks of shape [128] with kinds
  \<open>Int8(signed)\<close> and \<open>UInt16\<close> do not divide, the call raises.
\<close>

theorem truediv_int8_uint16_counterexample:
  "truediv (block (Param 0) (block_type int8 [128])) (block (Param 1) (block_type uint16 [128])) [] =
     Inl (ValueError (DifferentSignedness int8 uint16))"
  by (simp add: truediv_def binary_op_arith computation_type_impl_def and_then_def)

section \<open>The two calls written out in cast\<close>

lemma scalar_cast_dst_ty [simp]: "scalar (cast_dst_ty t d) = d"
  by (simp add: cast_dst_ty_def block_type_def scalar_type_def)

lemma cast_ptr_int64:
  assumes "is_ptr (scalar (type input))"
  shows "cast input int64 b = cast_ptr_to_int64 input b"
proof -
  have "type input \<noteq> cast_dst_ty (type input) int64"
  proof
    assume "type input = cast_dst_ty (type input) int64"
    then have "scalar (type input) = scalar (cast_dst_ty (type input) int64)" by simp
    with assms show False by simp
  qed
  with assms show ?thesis
    by (cases "scalar (type input)") (simp_all add: cast_def cast_ptr_to_int64_def Let_def)
qed

lemma cast_to_own_kind:
  "cast input (scalar (type input)) b = Inr (input, b)"
  by (simp add: cast_def Let_def cast_dst_ty_def block_type_def scalar_type_def is_block_def)

lemma broadcast_impl_value_scalar:
  assumes "broadcast_impl_value lhs rhs b = Inr ((l, r), b1)"
  shows "scalar (type l) = scalar (type lhs) \<or> scalar (type l) = scalar (type rhs)"
    and "scalar (type r) = scalar (type lhs) \<or> scalar (type r) = scalar (type rhs)"
  using assms
  by (auto simp: broadcast_impl_value_def Let_def emit_def split: if_splits sum.splits prod.splits)

lemma not_equal_on_int64:
  assumes "scalar (type input) = int64" and "scalar (type other) = int64"
  shows "not_equal input other b = not_equal_int64 input other b"
proof (cases "broadcast_impl_value input other b")
  case (Inl e)
  then show ?thesis
    by (simp add: not_equal_def not_equal_int64_def binary_op_type_checking_impl_def and_then_def)
next
  case (Inr r)
  then obtain l r' b1 where r: "broadcast_impl_value input other b = Inr ((l, r'), b1)"
    by (cases r) auto
  have k: "scalar (type l) = int64" "scalar (type r') = int64"
    using broadcast_impl_value_scalar [OF r] assms by auto
  have c: "cast l int64 b1 = Inr (l, b1)" "cast r' int64 b1 = Inr (r', b1)"
    using cast_to_own_kind [of l b1] cast_to_own_kind [of r' b1] k by simp_all
  show ?thesis
    using r k c
    by (simp add: not_equal_def not_equal_int64_def binary_op_type_checking_impl_def
          and_then_def check_ptr_type_impl_def computation_type_impl_def
          integer_promote_impl_def emit_block_def)
qed

section \<open>Properties of remainder, cast, pointer addition and reduction\<close>

text \<open>Remainder on two operands of one shape.\<close>

lemma mod_op_same_shape:
  "mod_op (block x (block_type int32 s)) (block y (block_type uint32 s)) b =
     Inl (ValueError (DifferentSignedness int32 uint32))
 \<and> mod_op (block x (block_type int32 s)) (block y (block_type int16 s)) b =
     Inr (block (Result (length b + 1)) (block_type int32 s),
          b @ [create_int_cast y (block_type int32 s) True, create_srem x (Result (length b))])"
  by (simp add: mod_op_def binary_op_arith computation_type_impl_def integer_promote_impl_def
        and_then_def cast_same cast_int_int sign_extend_def is_int_signed_def
        emit_block_def emit_def)

text \<open>
  The claim as written names a \<open>TypeError\<close>; the exception the source raises is a
  \<open>ValueError\<close>.
\<close>

theorem mod_op_int32_uint32_counterexample:
  "mod_op (block (Param 0) (scalar_type int32)) (block (Param 1) (scalar_type uint32)) [] =
     Inl (ValueError (DifferentSignedness int32 uint32))"
  by (simp add: scalar_type_eq mod_op_def binary_op_arith computation_type_impl_def and_then_def)

lemma is_fp32_iff: "is_fp32 d \<longleftrightarrow> d = float32"
  by (cases d) simp_all

lemma is_bf16_iff: "is_bf16 d \<longleftrightarrow> d = bfloat16"
  by (cases d) simp_all

text \<open>
  C4. Every cast with \<open>BFloat16\<close> on one side and neither \<open>BFloat16\<close> nor
  \<open>Float32\<close> on the other should go through \<open>Float32\<close> in two steps and return the
  value. In the source the rule calls the undefined name \<open>case\<close>: every such cast
  raises \<open>NameError\<close> and emits nothing.
\<close>

theorem cast_bf16_NameError:
  assumes "(src = bfloat16 \<and> dst \<noteq> bfloat16 \<and> dst \<noteq> float32) \<or>
           (dst = bfloat16 \<and> src \<noteq> bfloat16 \<and> src \<noteq> float32)"
  shows "cast (block h (block_type src s)) dst b = Inl (NameError ''case'')"
proof -
  have ne: "block_type src s \<noteq> block_type dst s"
    using assms by auto
  have c: "(is_bf16 src \<and> \<not> is_fp32 dst) \<or> (is_bf16 dst \<and> \<not> is_fp32 src)"
    using assms by (auto simp: is_fp32_iff)
  show ?thesis
    unfolding cast_def Let_def using ne c by simp
qed

theorem cast_bf16_NameError_witness:
  "cast (block (Param 0) (scalar_type bfloat16)) float16 [] = Inl (NameError ''case'')
 \<and> cast (block (Param 0) (block_type int32 [128])) bfloat16 [] = Inl (NameError ''case'')"
proof -
  have a: "(bfloat16 = bfloat16 \<and> float16 \<noteq> bfloat16 \<and> float16 \<noteq> float32) \<or>
           (float16 = bfloat16 \<and> bfloat16 \<noteq> bfloat16 \<and> bfloat16 \<noteq> float32)"
    by simp
  have c: "(int32 = bfloat16 \<and> bfloat16 \<noteq> bfloat16 \<and> bfloat16 \<noteq> float32) \<or>
           (bfloat16 = bfloat16 \<and> int32 \<noteq> bfloat16 \<and> int32 \<noteq> float32)"
    by simp
  show ?thesis
    using cast_bf16_NameError [OF a, of "Param 0" "[]" "[]"]
          cast_bf16_NameError [OF c, of "Param 0" "[128]" "[]"]
    by (simp only: scalar_type_eq simp_thms)
qed

text \<open>
  Pointer addition on operands of one shape. With the pointer on the left the instruction
  is the address offset; with the pointer on the right the operands are exchanged but the
  dispatch reads the scalar kind taken before the exchange, and the instruction is the
  integer add, typed with the pointer's type.
\<close>

lemma add_pointer_same_shape:
  "add (block x (block_type (Pointer float32 sp) s)) (block y (block_type int32 s)) b =
     Inr (block (Result (length b)) (block_type (Pointer float32 sp) s), b @ [create_gep x [y]])
 \<and> add (block y (block_type int32 s)) (block x (block_type (Pointer float32 sp) s)) b =
     Inr (block (Result (length b)) (block_type (Pointer float32 sp) s), b @ [create_add x y])
 \<and> add (block x (block_type (Pointer float32 sp) s)) (block y (block_type (Pointer int32 sp') s)) b =
     Inl (IncompatibleTypeErrorimpl (Pointer float32 sp) (Pointer int32 sp'))"
  by (simp add: add_def binary_op_type_checking_impl_def broadcast_impl_value_same_shape
        and_then_def check_ptr_type_impl_def emit_block_def emit_def)

text \<open>
  C5, as amended. In \<open>min\<close>, \<open>max\<close>, \<open>sum\<close> and \<open>xor_sum\<close> every integer operand
  of bit-width at most 32 is first cast to \<open>core.int32\<close>, the signed 32-bit integer,
  whatever its own signedness (an operand that is \<open>int32\<close> already is left as it is),
  and the reduce instruction with the integer opcode is emitted on the cast value.
\<close>

theorem reduce_widens_to_int32:
  assumes "int_bitwidth k = Some w" and "w \<le> 32"
  shows "(let pre = (if k = int32 then []
                     else [create_int_cast h (block_type int32 s) (sign_extend k)]);
              v = (if k = int32 then h else Result (length b));
              r = Result (length b + length pre)
          in min_op (block h (block_type k s)) axis b =
               Inr (r, b @ pre @ [create_reduce v REDUCE_OP_MIN axis])
           \<and> max_op (block h (block_type k s)) axis b =
               Inr (r, b @ pre @ [create_reduce v REDUCE_OP_MAX axis])
           \<and> sum_op (block h (block_type k s)) axis b =
               Inr (r, b @ pre @ [create_reduce v REDUCE_OP_ADD axis])
           \<and> xor_sum (block h (block_type k s)) axis b =
               Inr (r, b @ pre @ [create_reduce v REDUCE_OP_XOR axis]))"
proof -
  have i: "is_int k" using assms(1) by (cases k) simp_all
  then have nf: "\<not> is_floating k" using int_not_others by blast
  define pre where "pre = (if k = int32 then []
                     else [create_int_cast h (block_type int32 s) (sign_extend k)])"
  define v where "v = (if k = int32 then h else Result (length b))"
  have c: "cast (block h (block_type k s)) int32 b = Inr (block v (block_type int32 s), b @ pre)"
    using i by (cases "k = int32") (simp_all add: cast_same cast_int_int pre_def v_def)
  have r: "reduce_impl (block h (block_type k s)) axis b name F I =
      Inr (Result (length b + length pre), b @ pre @ [create_reduce v I axis])" for name F I
    using assms i nf by (simp add: reduce_impl_def c and_then_def emit_def)
  show ?thesis
    using i unfolding Let_def pre_def [symmetric] v_def [symmetric]
    by (simp add: min_op_def max_op_def sum_op_def xor_sum_def r)
qed

theorem reduce_widens_to_int32_witness:
  "sum_op (block (Param 0) (block_type int16 [4, 8])) 1 [] =
     Inr (Result 1, [create_int_cast (Param 0) (block_type int32 [4, 8]) True,
                     create_reduce (Result 0) REDUCE_OP_ADD 1])
 \<and> max_op (block (Param 0) (block_type uint32 [4, 8])) 1 [] =
     Inr (Result 1, [create_int_cast (Param 0) (block_type int32 [4, 8]) False,
                     create_reduce (Result 0) REDUCE_OP_MAX 1])
 \<and> min_op (block (Param 0) (block_type int32 [4, 8])) 0 [] =
     Inr (Result 0, [create_reduce (Param 0) REDUCE_OP_MIN 0])"
proof -
  have a: "int_bitwidth int16 = Some 16" "int_bitwidth uint32 = Some 32"
    "int_bitwidth int32 = Some 32" "(16::nat) \<le> 32" "(32::nat) \<le> 32"
    by simp_all
  show ?thesis
    using reduce_widens_to_int32 [OF a(1) a(4), of "Param 0" "[4, 8]" "[]" 1]
          reduce_widens_to_int32 [OF a(2) a(5), of "Param 0" "[4, 8]" "[]" 1]
          reduce_widens_to_int32 [OF a(3) a(5), of "Param 0" "[4, 8]" "[]" 0]
    by (simp add: Let_def sign_extend_def is_int_signed_def)
qed

text \<open>
  The claim as written has unsigned operands widen to the unsigned 32-bit integer; a
  \<open>UInt8\<close> block is cast to the signed \<open>int32\<close>.
\<close>

theorem reduce_uint8_counterexample:
  "sum_op (block (Param 0) (block_type uint8 [128])) 0 [] =
     Inr (Result 1, [create_int_cast (Param 0) (block_type int32 [128]) False,
                     create_reduce (Result 0) REDUCE_OP_ADD 0])"
  by (simp add: sum_op_def reduce_impl_def cast_int_int and_then_def emit_def sign_extend_def
        is_int_signed_def)

section \<open>Properties of load\<close>

lemma cast_dst_ty_shape [simp]:
  "get_block_shapes (cast_dst_ty t d) = get_block_shapes t"
  "is_block (cast_dst_ty t d) = is_block t"
  by (simp_all add: cast_dst_ty_def block_type_def scalar_type_def is_block_def)

lemma cast_ptr_ptr:
  assumes "scalar (type ptr) = Pointer e sp" and "e \<noteq> e'"
  shows "cast ptr (Pointer e' sp') b =
    emit_block (create_bitcast (handle ptr) (cast_dst_ty (type ptr) (Pointer e' sp')))
      (cast_dst_ty (type ptr) (Pointer e' sp')) b"
proof -
  have "type ptr \<noteq> cast_dst_ty (type ptr) (Pointer e' sp')"
  proof
    assume "type ptr = cast_dst_ty (type ptr) (Pointer e' sp')"
    then have "scalar (type ptr) = scalar (cast_dst_ty (type ptr) (Pointer e' sp'))" by simp
    with assms show False by simp
  qed
  with assms show ?thesis
    by (simp add: cast_def Let_def)
qed

lemma load_bool_pointer:
  assumes "scalar (type ptr) = Pointer elt sp"
  shows "\<exists>ptr' elt_ty b'.
    (if elt = int1 then
       and_then (cast ptr (pointer_type int8 sp) b)
         (\<lambda>(ptr, b3). Inr ((ptr, int8), b3))
     else Inr ((ptr, elt), b)) = Inr ((ptr', elt_ty), b') \<and> is_block (type ptr') = is_block (type ptr)"
proof (cases "elt = int1")
  case True
  then have "cast ptr (pointer_type int8 sp) b =
      emit_block (create_bitcast (handle ptr) (cast_dst_ty (type ptr) (Pointer int8 sp)))
        (cast_dst_ty (type ptr) (Pointer int8 sp)) b"
    using cast_ptr_ptr [of ptr int1 sp int8 sp b] assms by simp
  with True show ?thesis
    by (simp add: and_then_def emit_block_def emit_def)
next
  case False
  then show ?thesis by simp
qed

text \<open>
  C6. On a block of pointers, with valid cache and eviction hints, a load with a mask and
  no fill should synthesize the fill and emit one masked load. In the source the fill is
  synthesized (the splat of the undefined value is emitted) and then wrapped under the
  undefined name \<open>other_it\<close>: the call raises \<open>NameError\<close> and no masked load is
  emitted. The two other parts of the claim hold: lemmas \<open>load_plain\<close> and
  \<open>load_other_without_mask\<close>.
\<close>

theorem load_mask_without_other:
  assumes "scalar (type ptr) = Pointer elt sp" and "is_block (type ptr)"
    and "cache_of cache_modifier = Inr c" and "eviction_of eviction_policy = Inr e"
    and "broadcast_impl_shape m (get_block_shapes (type ptr)) b = Inr r"
  shows "load as_block ptr (Some m) None cache_modifier eviction_policy is_volatile b =
           Inl (NameError ''other_it'')"
proof -
  obtain m' b1 where r: "r = (m', b1)" by (cases r)
  obtain ptr' elt_ty b' where
    bp: "(if elt = int1 then
            and_then (cast ptr (pointer_type int8 sp) b1)
              (\<lambda>(ptr, b3). Inr ((ptr, int8), b3))
          else Inr ((ptr, elt), b1)) = Inr ((ptr', elt_ty), b')"
    and blk: "is_block (type ptr') = is_block (type ptr)"
    using load_bool_pointer [OF assms(1), of b1] by blast
  have lb: "load_broadcast ptr (Some m) None b = Inr ((Some m', None), b1)"
    using assms(2,5) r by (simp add: load_broadcast_def and_then_def)
  show ?thesis
    using assms(1-4) blk
    by (simp add: load_def lb and_then_def bp Let_def split: prod.splits)
qed

theorem load_mask_without_other_witness:
  "load (\<lambda>h. Inl AttributeError) (block (Param 0) (block_type (Pointer float32 1) [128]))
     (Some (block (Param 1) (block_type int1 [128]))) None None None False [] =
   Inl (NameError ''other_it'')"
proof -
  have a: "scalar (type (block (Param 0) (block_type (Pointer float32 1) [128]))) = Pointer float32 1"
    and b: "is_block (type (block (Param 0) (block_type (Pointer float32 1) [128])))"
    and c: "cache_of None = Inr NONE" and d: "eviction_of None = Inr NORMAL"
    and e: "broadcast_impl_shape (block (Param 1) (block_type int1 [128]))
              (get_block_shapes (type (block (Param 0) (block_type (Pointer float32 1) [128])))) [] =
            Inr (Block (block (Param 1) (block_type int1 [128])), [])"
    by (simp_all add: is_block_def cache_of_def eviction_of_def broadcast_impl_shape_def)
  show ?thesis
    using load_mask_without_other [OF a b c d e, of "\<lambda>h. Inl AttributeError" False] by simp
qed

text \<open>Whatever the operands, a load with a mask and no fill never returns a value.\<close>

lemma load_never_returns_with_mask_only:
  "load as_block ptr (Some m) None cache_modifier eviction_policy is_volatile b \<noteq> Inr res"
  by (auto simp: load_def and_then_def Let_def load_broadcast_def
           split: dtype.splits sum.splits prod.splits option.splits if_splits)

text \<open>
  Neither mask nor fill: exactly one instruction is emitted, the plain load. (For a
  pointer to \<open>int1\<close> the pointer is first recast to a pointer to \<open>int8\<close>.)
\<close>

lemma load_plain:
  assumes "scalar (type ptr) = Pointer elt sp" and "is_block (type ptr)" and "elt \<noteq> int1"
    and "cache_of cache_modifier = Inr c" and "eviction_of eviction_policy = Inr e"
  shows "load as_block ptr None None cache_modifier eviction_policy is_volatile b =
           Inr (block (Result (length b)) (block_type elt (get_block_shapes (type ptr))),
                b @ [create_load (handle ptr) c e is_volatile])"
  using assms
  by (simp add: load_def load_broadcast_def and_then_def Let_def emit_block_def emit_def)

text \<open>A fill of the pointee's kind and the pointer's shape, and no mask: \<open>ValueError\<close>.\<close>

lemma load_other_without_mask:
  assumes "scalar (type ptr) = Pointer elt sp" and "is_block (type ptr)" and "elt \<noteq> int1"
    and "cache_of cache_modifier = Inr c" and "eviction_of eviction_policy = Inr e"
    and "type ot = block_type elt (get_block_shapes (type ptr))"
  shows "load as_block ptr None (Some ot) cache_modifier eviction_policy is_volatile b =
           Inl (ValueError OtherWithoutMask)"
proof -
  have c: "cast ot elt b = Inr (ot, b)"
    using assms(6) cast_to_own_kind [of ot b] by simp
  have bs: "broadcast_impl_shape ot (get_block_shapes (type ptr)) b = Inr (Block ot, b)"
    using assms(2,6) by (simp add: broadcast_impl_shape_def is_block_def)
  show ?thesis
    using assms(1-5)
    by (simp add: load_def load_broadcast_def bs c and_then_def Let_def the_block_def)
qed

section \<open>Properties of atomic max\<close>

lemma and_then_Inr_iff: "and_then r f = Inr y \<longleftrightarrow> (\<exists>x. r = Inr x \<and> f x = Inr y)"
  by (cases r) (simp_all add: and_then_def)

lemma broadcast_impl_value_rhs_block:
  assumes "broadcast_impl_value lhs rhs b = Inr ((l, r), b1)" and "is_block (type rhs)"
  shows "scalar (type r) = scalar (type rhs)"
  using assms
  by (auto simp: broadcast_impl_value_def Let_def emit_def split: if_splits sum.splits prod.splits)

lemma binary_op_no_arith_rhs_block:
  assumes "binary_op_type_checking_impl lhs rhs b al ar False m = Inr ((l, r), b1)"
    and "is_block (type rhs)"
  shows "scalar (type r) = scalar (type rhs)"
proof -
  from assms(1) obtain l0 r0 b0 where
    bc: "broadcast_impl_value lhs rhs b = Inr ((l0, r0), b0)"
    and rest: "and_then (check_ptr_type_impl (scalar (type l0)) (scalar (type r0)) al) (\<lambda>_.
               and_then (check_ptr_type_impl (scalar (type r0)) (scalar (type l0)) ar) (\<lambda>_.
                 Inr ((l0, r0), b0))) = Inr ((l, r), b1)"
    by (auto simp: binary_op_type_checking_impl_def and_then_Inr_iff Let_def)
  from rest have "r = r0"
    by (auto simp: and_then_Inr_iff)
  with broadcast_impl_value_rhs_block [OF bc assms(2)] show ?thesis by simp
qed

lemma and_op_fails:
  assumes "is_block (type other)" and "\<not> is_int (scalar (type other))"
  shows "and_op input other b \<noteq> Inr res"
proof
  assume "and_op input other b = Inr res"
  then obtain l r b1 where
    bo: "binary_op_type_checking_impl input other b False False False False = Inr ((l, r), b1)"
    and c: "\<not> (\<not> is_int (scalar (type l)) \<or> \<not> is_int (scalar (type r)))"
    by (auto simp: and_op_def bitwise_op_type_checking_impl_def and_then_Inr_iff Let_def
             split: if_splits)
  from binary_op_no_arith_rhs_block [OF bo assms(1)] assms(2) c show False by simp
qed

lemma less_than_float_type:
  assumes "is_floating f" and "s \<noteq> []"
    and "less_than (block v (block_type f s)) (block c (scalar_type f)) b = Inr (neg, b')"
  shows "type neg = block_type f s"
proof -
  have np: "\<not> is_ptr f" using assms(1) by (cases f) simp_all
  have bc: "broadcast_impl_value (block v (block_type g s)) (block c (scalar_type g)) b =
      Inr ((block v (block_type g s), block (Result (length b)) (block_type g s)),
           b @ [create_splat c s])" for g
    using assms(2) by (simp add: broadcast_impl_value_def Let_def is_block_def scalar_type_eq emit_def)
  have bo: "binary_op_type_checking_impl (block v (block_type f s)) (block c (scalar_type f)) b
           False False True False =
        (if f = bfloat16 then Inl AssertionError
         else Inr ((block v (block_type f s), block (Result (length b)) (block_type f s)),
                   b @ [create_splat c s]))"
    using assms(1)
    by (cases f)
       (simp_all add: binary_op_type_checking_impl_def bc and_then_def check_ptr_type_impl_def
          computation_type_impl_def cast_same)
  from assms(3) assms(1) show ?thesis
    by (auto simp: less_than_def bo and_then_def emit_block_def emit_def split: if_splits)
qed

lemma atom_red_typechecking_impl_val:
  assumes "s \<noteq> []"
    and "atom_red_typechecking_impl as_block block_of (block p (block_type (Pointer f sp) s))
           (block v (block_type f s)) msk b = Inr ((ptr', val', msk'), b1)"
  shows "val' = block v (block_type f s)"
proof -
  have bs: "broadcast_impl_shape (block v (block_type f s)) s bb =
      Inr (Block (block v (block_type f s)), bb)" for bb
    using assms(1) by (simp add: broadcast_impl_shape_def is_block_def)
  from assms(2) show ?thesis
    using assms(1)
    by (auto simp: atom_red_typechecking_impl_def and_then_Inr_iff is_block_def bs the_block_def
          cast_same split: option.splits prod.splits)
qed

text \<open>
  C7. On floating values \<open>atomic_max\<close> should split the mask into \<open>pos\<close> and
  \<open>neg\<close>, emit the signed-max update under mask and \<open>pos\<close> and the unsigned-min
  update under mask and \<open>neg\<close>, and select between the two results. In the source
  \<open>less_than\<close> types the comparison \<open>neg\<close> with the type of its floating operand, and
  the bitwise and of the mask with \<open>neg\<close> rejects a floating operand: for a block of
  pointers to a floating kind and a value block of that kind and shape, with or without a
  mask, \<open>atomic_max\<close> returns no value, whatever the absent parts of \<open>core\<close> and
  \<open>ir\<close> do. The unsigned-min update and the select are never emitted.
\<close>

theorem atomic_max_float_never_returns:
  assumes "is_floating f" and "s \<noteq> []"
  shows "atomic_max as_block block_of cast_to_block_type
           (block p (block_type (Pointer f sp) s)) (block v (block_type f s)) msk b \<noteq> Inr res"
proof
  assume a: "atomic_max as_block block_of cast_to_block_type
           (block p (block_type (Pointer f sp) s)) (block v (block_type f s)) msk b = Inr res"
  have ni: "\<not> is_int f" using assms(1) by (cases f) simp_all
  from a obtain ptr' val' msk' b1 where
    ar: "atom_red_typechecking_impl as_block block_of (block p (block_type (Pointer f sp) s))
           (block v (block_type f s)) msk b = Inr ((ptr', val', msk'), b1)"
    by (auto simp: atomic_max_def and_then_Inr_iff)
  have v: "val' = block v (block_type f s)"
    using atom_red_typechecking_impl_val [OF assms(2) ar] .
  from a ar v ni obtain neg b4 b5 mask_block b7 r where
    lt: "less_than (block v (block_type f s)) (block (constant_float f 0) (scalar_type f)) b4 =
           Inr (neg, b5)"
    and an: "and_op mask_block neg b7 = Inr r"
    by (auto simp: atomic_max_def and_then_Inr_iff Let_def emit_def split: prod.splits)
  have "type neg = block_type f s"
    using less_than_float_type [OF assms lt] .
  then have "is_block (type neg)" "\<not> is_int (scalar (type neg))"
    using assms(2) ni by (simp_all add: is_block_def)
  from and_op_fails [OF this] an show False by blast
qed


theorem atomic_max_float_never_returns_witness:
  "atomic_max (\<lambda>h. Inr (block h (block_type int1 [128])))
              (\<lambda>h. Inr (block h (block_type int1 [128])))
              (\<lambda>input t b. emit_block (create_bitcast (handle input) t) t b)
              (block (Param 0) (block_type (Pointer float32 1) [128]))
              (block (Param 1) (block_type float32 [128]))
              (Some (block (Param 2) (block_type int1 [128]))) [] =
     Inl (IncompatibleTypeErrorimpl int1 float32)"
proof -
  have f: "is_floating float32" and s: "[128::int] \<noteq> []" by simp_all
  have bs: "broadcast_impl_shape (block h (block_type d [128])) [128] bb =
      Inr (Block (block h (block_type d [128])), bb)" for h d bb
    by (simp add: broadcast_impl_shape_def is_block_def)
  have bv: "broadcast_impl_value (block h (block_type d [128])) (block h' (block_type d' [128])) bb =
      Inr ((block h (block_type d [128]), block h' (block_type d' [128])), bb)" for h d h' d' bb
    by (simp add: broadcast_impl_value_same_shape)
  have bsc: "broadcast_impl_value (block h (block_type d [128])) (block h' (scalar_type d')) bb =
      Inr ((block h (block_type d [128]), block (Result (length bb)) (block_type d [128])),
           bb @ [create_splat h' [128]])" for h d h' d' bb
    by (simp add: broadcast_impl_value_def Let_def is_block_def scalar_type_eq emit_def)
  show ?thesis
    using atomic_max_float_never_returns [OF f s,
        of "\<lambda>h. Inr (block h (block_type int1 [128]))"
           "\<lambda>h. Inr (block h (block_type int1 [128]))"
           "\<lambda>input t b. emit_block (create_bitcast (handle input) t) t b"
           "Param 0" 1 "Param 1" "Some (block (Param 2) (block_type int1 [128]))" "[]"]
    by (simp add: atomic_max_def atom_red_typechecking_impl_def and_then_def bs bv bsc
          the_block_def cast_same is_block_def bitcast_def Let_def emit_block_def emit_def
          greater_equal_def less_than_def binary_op_type_checking_impl_def
          check_ptr_type_impl_def computation_type_impl_def and_op_def
          bitwise_op_type_checking_impl_def integer_promote_impl_def)
qed

section \<open>Operands brought to one shape, and operands of different rank\<close>

lemma broadcast_impl_value_same_class:
  assumes "broadcast_impl_value lhs rhs b = Inr ((l, r), b1)"
    and "is_block (type lhs) = is_block (type rhs)"
  shows "scalar (type l) = scalar (type lhs)"
    and "scalar (type r) = scalar (type rhs)"
    and "get_block_shapes (type l) = get_block_shapes (type r)"
  using assms
  by (auto simp: broadcast_impl_value_def Let_def emit_def is_block_def
           split: if_splits sum.splits prod.splits)

lemma binary_op_after_broadcast:
  assumes "broadcast_impl_value lhs rhs b = Inr ((l, r), b1)"
    and "get_block_shapes (type l) = get_block_shapes (type r)"
  shows "binary_op_type_checking_impl lhs rhs b al ar ac m =
         binary_op_type_checking_impl l r b1 al ar ac m"
  using assms
  by (simp add: binary_op_type_checking_impl_def broadcast_impl_value_same_shape and_then_def)

lemma block_eta:
  "l = block (handle l) (block_type (scalar (type l)) (get_block_shapes (type l)))"
  by (simp add: block_def block_type_def)

text \<open>
  C1, as amended. Take two integer operands that are both blocks or both scalars, and let
  the implicit broadcast bring them to one shape. True-divide resolves its computation
  type with \<open>div_or_mod\<close> set: when the signedness of the two kinds differs the call
  fails with the different-signedness \<open>ValueError\<close> and no divide is emitted; when it
  agrees, both operands are first brought to the promoted integer kind \<open>p\<close> (one
  integer cast for each operand whose kind is not \<open>p\<close>), then both are converted to
  \<open>float32\<close>, then the divide of the two converted values is emitted, and the result
  has element kind \<open>float32\<close> and the common shape.
\<close>

theorem truediv_int_int:
  assumes "is_int a" and "is_int c"
    and "scalar (type lhs) = a" and "scalar (type rhs) = c"
    and "is_block (type lhs) = is_block (type rhs)"
    and "broadcast_impl_value lhs rhs b = Inr ((l, r), b1)"
  shows "(int_signedness a \<noteq> int_signedness c \<longrightarrow>
            truediv lhs rhs b = Inl (ValueError (DifferentSignedness a c)))
       \<and> (int_signedness a = int_signedness c \<longrightarrow>
            (\<exists>p. integer_promote_impl a c = Inr p \<and> (p = a \<or> p = c) \<and>
              (let s = get_block_shapes (type l);
                   pre_a = (if a = p then []
                            else [create_int_cast (handle l) (block_type p s) (sign_extend a)]);
                   xa = (if a = p then handle l else Result (length b1));
                   pre_c = (if c = p then []
                            else [create_int_cast (handle r) (block_type p s) (sign_extend c)]);
                   xc = (if c = p then handle r else Result (length b1 + length pre_a));
                   n = length b1 + length pre_a + length pre_c
               in truediv lhs rhs b =
                    Inr (block (Result (n + 2)) (block_type float32 s),
                         b1 @ pre_a @ pre_c @
                         [int_to_fp p xa (block_type float32 s),
                          int_to_fp p xc (block_type float32 s),
                          create_fdiv (Result n) (Result (n + 1))]))))"
proof -
  note sc = broadcast_impl_value_same_class [OF assms(6,5)]
  have l: "l = block (handle l) (block_type a (get_block_shapes (type l)))"
    using block_eta [of l] sc(1) assms(3) by simp
  have r: "r = block (handle r) (block_type c (get_block_shapes (type l)))"
    using block_eta [of r] sc(2,3) assms(4) by simp
  have "truediv lhs rhs b = truediv l r b1"
    by (simp add: truediv_def binary_op_after_broadcast [OF assms(6) sc(3)])
  also have "\<dots> = truediv (block (handle l) (block_type a (get_block_shapes (type l))))
                       (block (handle r) (block_type c (get_block_shapes (type l)))) b1"
    using l r by simp
  finally have e: "truediv lhs rhs b =
      truediv (block (handle l) (block_type a (get_block_shapes (type l))))
              (block (handle r) (block_type c (get_block_shapes (type l)))) b1" .
  show ?thesis
    unfolding e
    using truediv_same_shape [OF assms(1,2), of "handle l" "get_block_shapes (type l)" "handle r" b1]
    by (simp add: Let_def)
qed

theorem truediv_int_int_witness:
  "truediv (block (Param 0) (block_type int8 [1, 4])) (block (Param 1) (block_type int16 [4, 1])) [] =
     Inr (block (Result 5) (block_type float32 [4, 4]),
          [create_broadcast (Param 0) [4, 4],
           create_broadcast (Param 1) [4, 4],
           create_int_cast (Result 0) (block_type int16 [4, 4]) True,
           create_si_to_fp (Result 2) (block_type float32 [4, 4]),
           create_si_to_fp (Result 1) (block_type float32 [4, 4]),
           create_fdiv (Result 3) (Result 4)])
 \<and> truediv (block (Param 0) (block_type int32 [128])) (block (Param 1) (block_type uint8 [128])) [] =
     Inl (ValueError (DifferentSignedness int32 uint8))"
proof -
  have bc1: "broadcast_impl_value (block (Param 0) (block_type int8 [1, 4]))
               (block (Param 1) (block_type int16 [4, 1])) [] =
             Inr ((block (Result 0) (block_type int8 [4, 4]),
                   block (Result 1) (block_type int16 [4, 4])),
                  [create_broadcast (Param 0) [4, 4], create_broadcast (Param 1) [4, 4]])"
    by (simp add: broadcast_impl_value_def Let_def is_block_def emit_def)
  have bc2: "broadcast_impl_value (block (Param 0) (block_type int32 [128]))
               (block (Param 1) (block_type uint8 [128])) [] =
             Inr ((block (Param 0) (block_type int32 [128]),
                   block (Param 1) (block_type uint8 [128])), [])"
    by (simp add: broadcast_impl_value_same_shape)
  show ?thesis
    using truediv_int_int [OF _ _ _ _ _ bc1, where a = int8 and c = int16]
          truediv_int_int [OF _ _ _ _ _ bc2, where a = int32 and c = uint8]
    by (simp add: integer_promote_impl_def int_to_fp_def sign_extend_def is_int_signed_def
          is_block_def Let_def)
qed

text \<open>
  C3, as amended. Take two operands that are both blocks or both scalars, and let the
  implicit broadcast bring them to one shape. Remainder between \<open>Int32(signed)\<close> and
  \<open>UInt32\<close> fails with a \<open>ValueError\<close> that reports the different signedness (raised
  while the computation type is resolved, before any cast or remainder is emitted);
  remainder between \<open>Int32(signed)\<close> and \<open>Int16(signed)\<close> casts the second operand to
  \<open>Int32(signed)\<close> with sign extension and emits the signed integer remainder, typed
  \<open>Int32(signed)\<close>.
\<close>

theorem mod_op_signedness:
  assumes "scalar (type lhs) = int32"
    and "is_block (type lhs) = is_block (type rhs)"
    and "broadcast_impl_value lhs rhs b = Inr ((l, r), b1)"
  shows "(scalar (type rhs) = uint32 \<longrightarrow>
            mod_op lhs rhs b = Inl (ValueError (DifferentSignedness int32 uint32)))
       \<and> (scalar (type rhs) = int16 \<longrightarrow>
            mod_op lhs rhs b =
              Inr (block (Result (length b1 + 1)) (block_type int32 (get_block_shapes (type l))),
                   b1 @ [create_int_cast (handle r) (block_type int32 (get_block_shapes (type l))) True,
                         create_srem (handle l) (Result (length b1))]))"
proof -
  note sc = broadcast_impl_value_same_class [OF assms(3,2)]
  have l: "l = block (handle l) (block_type int32 (get_block_shapes (type l)))"
    using block_eta [of l] sc(1) assms(1) by simp
  have r: "r = block (handle r) (block_type (scalar (type rhs)) (get_block_shapes (type l)))"
    using block_eta [of r] sc(2,3) by simp
  have "mod_op lhs rhs b = mod_op l r b1"
    by (simp add: mod_op_def binary_op_after_broadcast [OF assms(3) sc(3)])
  also have "\<dots> = mod_op (block (handle l) (block_type int32 (get_block_shapes (type l))))
                       (block (handle r) (block_type (scalar (type rhs)) (get_block_shapes (type l)))) b1"
    using l r by simp
  finally have e: "mod_op lhs rhs b =
      mod_op (block (handle l) (block_type int32 (get_block_shapes (type l))))
             (block (handle r) (block_type (scalar (type rhs)) (get_block_shapes (type l)))) b1" .
  show ?thesis
    unfolding e
    using mod_op_same_shape [of "handle l" "get_block_shapes (type l)" "handle r" b1]
    by auto
qed

theorem mod_op_signedness_witness:
  "mod_op (block (Param 0) (block_type int32 [64])) (block (Param 1) (block_type uint32 [64])) [] =
     Inl (ValueError (DifferentSignedness int32 uint32))
 \<and> mod_op (block (Param 0) (block_type int32 [1, 4])) (block (Param 1) (block_type int16 [4, 1])) [] =
     Inr (block (Result 3) (block_type int32 [4, 4]),
          [create_broadcast (Param 0) [4, 4],
           create_broadcast (Param 1) [4, 4],
           create_int_cast (Result 1) (block_type int32 [4, 4]) True,
           create_srem (Result 0) (Result 2)])"
proof -
  have bc1: "broadcast_impl_value (block (Param 0) (block_type int32 [64]))
               (block (Param 1) (block_type uint32 [64])) [] =
             Inr ((block (Param 0) (block_type int32 [64]),
                   block (Param 1) (block_type uint32 [64])), [])"
    by (simp add: broadcast_impl_value_same_shape)
  have bc2: "broadcast_impl_value (block (Param 0) (block_type int32 [1, 4]))
               (block (Param 1) (block_type int16 [4, 1])) [] =
             Inr ((block (Result 0) (block_type int32 [4, 4]),
                   block (Result 1) (block_type int16 [4, 4])),
                  [create_broadcast (Param 0) [4, 4], create_broadcast (Param 1) [4, 4]])"
    by (simp add: broadcast_impl_value_def Let_def is_block_def emit_def)
  show ?thesis
    using mod_op_signedness [OF _ _ bc1] mod_op_signedness [OF _ _ bc2]
    by (simp add: is_block_def)
qed

text \<open>
  C8. Adding a pointer to \<open>Float32\<close> and an \<open>Int32\<close> offset should give a pointer to
  \<open>Float32\<close> with the pointer on either side, and adding a pointer to \<open>Float32\<close> and
  a pointer to \<open>Int32\<close> should fail. In the source a rank-0 operand beside a block is
  splatted and given the block's whole type: a scalar pointer added to a block of
  \<open>Int32\<close> offsets, in either order, is added as an integer and the result is an
  \<open>Int32\<close> block; a block of pointers to \<open>Float32\<close> added to a scalar pointer to
  \<open>Int32\<close> raises nothing and emits an address offset.
\<close>

theorem add_pointer_mixed_rank:
  assumes "s \<noteq> []"
  shows "add (block x (scalar_type (Pointer float32 sp))) (block y (block_type int32 s)) b =
           Inr (block (Result (length b + 1)) (block_type int32 s),
                b @ [create_splat x s, create_add (Result (length b)) y])
       \<and> add (block y (block_type int32 s)) (block x (scalar_type (Pointer float32 sp))) b =
           Inr (block (Result (length b + 1)) (block_type int32 s),
                b @ [create_splat x s, create_add y (Result (length b))])
       \<and> add (block x (block_type (Pointer float32 sp) s)) (block y (scalar_type (Pointer int32 sp'))) b =
           Inr (block (Result (length b + 1)) (block_type (Pointer float32 sp) s),
                b @ [create_splat y s, create_gep x [Result (length b)]])"
proof -
  have b1: "broadcast_impl_value (block h (scalar_type d)) (block h' (block_type d' s)) bb =
      Inr ((block (Result (length bb)) (block_type d' s), block h' (block_type d' s)),
           bb @ [create_splat h s])" for h d h' d' bb
    using assms by (simp add: broadcast_impl_value_def Let_def is_block_def scalar_type_eq emit_def)
  have b2: "broadcast_impl_value (block h (block_type d s)) (block h' (scalar_type d')) bb =
      Inr ((block h (block_type d s), block (Result (length bb)) (block_type d s)),
           bb @ [create_splat h' s])" for h d h' d' bb
    using assms by (simp add: broadcast_impl_value_def Let_def is_block_def scalar_type_eq emit_def)
  show ?thesis
    by (simp add: add_def binary_op_type_checking_impl_def b1 b2 and_then_def
          check_ptr_type_impl_def computation_type_impl_def integer_promote_impl_def cast_same
          emit_block_def emit_def Let_def)
qed

theorem add_pointer_mixed_rank_witness:
  "add (block (Param 0) (scalar_type (Pointer float32 1))) (block (Param 1) (block_type int32 [128])) [] =
     Inr (block (Result 1) (block_type int32 [128]),
          [create_splat (Param 0) [128], create_add (Result 0) (Param 1)])
 \<and> add (block (Param 1) (block_type int32 [128])) (block (Param 0) (scalar_type (Pointer float32 1))) [] =
     Inr (block (Result 1) (block_type int32 [128]),
          [create_splat (Param 0) [128], create_add (Param 1) (Result 0)])
 \<and> add (block (Param 0) (block_type (Pointer float32 1) [128]))
         (block (Param 1) (scalar_type (Pointer int32 1))) [] =
     Inr (block (Result 1) (block_type (Pointer float32 1) [128]),
          [create_splat (Param 1) [128], create_gep (Param 0) [Result 0]])"
proof -
  have s: "[128::int] \<noteq> []" by simp
  show ?thesis
    using add_pointer_mixed_rank [OF s, of "Param 0" 1 "Param 1" "[]" 1]
    by simp
qed

end
